theory Spec2Isabelle
  imports
    Main
    "HOL-Library.Word"
    "HOL-Library.Char_ord"
    "HOL-Library.List_Lexorder"
    "HOL-Library.Multiset"
begin

section \<open>Shared data: errors, panics, tests\<close>

text \<open>
  Go's \<open>error\<close> values. \<open>ErrorString\<close> is what \<open>errors.New\<close> and \<open>fmt.Errorf\<close> build
  (the rendered message), \<open>NumError\<close> is \<open>*strconv.NumError\<close> (function, input, cause) and
  \<open>ExternalError\<close> is an error value handed back by a library that talks to the outside
  (DNS exchange, TLS dial, IMAP session, redis, the test parser).
\<close>

datatype num_err = ErrSyntax | ErrRange

datatype error =
    ErrorString string
  | NumError string string num_err
  | ExternalError string

text \<open>A run-time panic ends the call without a return value.\<close>

datatype panic = IndexOutOfRange nat nat | NilPointerDereference

datatype 'a result = Return 'a | Panic panic

text \<open>
  \<open>test.Test\<close>: the fields the probers and the enqueue command read. Reading a Go map
  at a missing key gives the empty string, which is what \<open>arg\<close> does.
\<close>

record test =
  Input :: string
  Arguments :: "string \<rightharpoonup> string"

definition arg :: "test \<Rightarrow> string \<Rightarrow> string" where
  "arg tst k = (case Arguments tst k of None \<Rightarrow> [] | Some v \<Rightarrow> v)"

text \<open>\<open>test.Options\<close>: the timeout, a \<open>time.Duration\<close> (nanoseconds).\<close>

record options =
  Timeout :: int

section \<open>Library functions of the Go standard library\<close>

text \<open>\<open>fmt.Sprintf("%d", n)\<close>: decimal digits, with a leading minus sign below zero.\<close>

fun nat_digits :: "nat \<Rightarrow> string" where
  "nat_digits n =
     (if n < 10 then [''0123456789'' ! n]
      else nat_digits (n div 10) @ [''0123456789'' ! (n mod 10)])"

declare nat_digits.simps [simp del]

definition Sprintf_d :: "int \<Rightarrow> string" where
  "Sprintf_d i = (if i < 0 then ''-'' @ nat_digits (nat (- i)) else nat_digits (nat i))"

text \<open>\<open>strings.Contains(s, ":")\<close> for the one-byte substring the probers ask about.\<close>

definition Contains_colon :: "string \<Rightarrow> bool" where
  "Contains_colon s = (CHR '':'' \<in> set s)"

text \<open>\<open>strings.Join(elems, sep)\<close>.\<close>

fun Join :: "string list \<Rightarrow> string \<Rightarrow> string" where
  "Join [] sep = []"
| "Join [x] sep = x"
| "Join (x # y # ys) sep = x @ sep @ Join (y # ys) sep"

text \<open>
  \<open>sort.Strings\<close> sorts in increasing byte-wise lexicographic order. The order on
  \<open>string\<close> used here is that order, and a sorted permutation of a list over a linear
  order is unique, so the library's \<open>sort\<close> gives the slice \<open>sort.Strings\<close> leaves.
\<close>

definition sort_Strings :: "string list \<Rightarrow> string list" where
  "sort_Strings xs = sort xs"

text \<open>
  \<open>strconv.Atoi\<close> on a platform with 64-bit \<open>int\<close>: an optional sign, then decimal
  digits read left to right by \<open>ParseUint\<close>; a byte that is no digit is a syntax error,
  a value leaving the unsigned 64-bit range is a range error at the digit where it does,
  and a value outside the signed 64-bit range is a range error at the end.
\<close>

fun ParseUint_loop :: "string \<Rightarrow> nat \<Rightarrow> num_err + nat" where
  "ParseUint_loop [] n = Inr n"
| "ParseUint_loop (c # cs) n =
     (let d = (of_char c :: nat) in
      if d < 48 \<or> 57 < d then Inl ErrSyntax
      else if n \<ge> (2 ^ 64 - 1) div 10 + 1 then Inl ErrRange
      else (let n1 = n * 10 + (d - 48) in
            if n1 > 2 ^ 64 - 1 then Inl ErrRange else ParseUint_loop cs n1))"

definition Atoi :: "string \<Rightarrow> error + int" where
  "Atoi s0 =
     (let neg = (s0 \<noteq> [] \<and> hd s0 = CHR ''-'');
          s = (if s0 \<noteq> [] \<and> (hd s0 = CHR ''+'' \<or> hd s0 = CHR ''-'') then tl s0 else s0)
      in if s = [] then Inl (NumError ''Atoi'' s0 ErrSyntax)
         else (case ParseUint_loop s 0 of
                 Inl k \<Rightarrow> Inl (NumError ''Atoi'' s0 k)
               | Inr un \<Rightarrow>
                   if \<not> neg \<and> un \<ge> 2 ^ 63 then Inl (NumError ''Atoi'' s0 ErrRange)
                   else if neg \<and> un > 2 ^ 63 then Inl (NumError ''Atoi'' s0 ErrRange)
                   else Inr (if neg then - int un else int un)))"

text \<open>
  \<open>strings.Fields\<close> splits around runs of white space as \<open>unicode.IsSpace\<close> defines it.
  On the bytes of the string: \<open>space_width\<close> is the length of the UTF-8 encoding of a
  white-space rune at the head of its argument (tab, line feed, vertical tab, form feed,
  carriage return, space, U+0085, U+00A0, U+1680, U+2000 to U+200A, U+2028, U+2029, U+202F,
  U+205F, U+3000), and 0 when the head is anything else. A lead byte of such an encoding is
  never a continuation byte, so the decoder always starts a rune there.
\<close>

definition space_width :: "string \<Rightarrow> nat" where
  "space_width s =
     (case s of
        [] \<Rightarrow> 0
      | c # cs \<Rightarrow>
          if c \<in> {CHR 0x09, CHR 0x0A, CHR 0x0B, CHR 0x0C, CHR 0x0D, CHR 0x20} then 1
          else if c = CHR 0xC2 then
            (if take 1 cs = [CHR 0x85] \<or> take 1 cs = [CHR 0xA0] then 2 else 0)
          else if c = CHR 0xE1 then
            (if take 2 cs = [CHR 0x9A, CHR 0x80] then 3 else 0)
          else if c = CHR 0xE2 then
            (if take 1 cs = [CHR 0x80] \<and>
                take 1 (drop 1 cs) \<in> {[CHR 0x80], [CHR 0x81], [CHR 0x82], [CHR 0x83], [CHR 0x84],
                   [CHR 0x85], [CHR 0x86], [CHR 0x87], [CHR 0x88], [CHR 0x89], [CHR 0x8A],
                   [CHR 0xA8], [CHR 0xA9], [CHR 0xAF]}
                \<or> take 2 cs = [CHR 0x81, CHR 0x9F] then 3 else 0)
          else if c = CHR 0xE3 then
            (if take 2 cs = [CHR 0x80, CHR 0x80] then 3 else 0)
          else 0)"

fun fields_from :: "string \<Rightarrow> string \<Rightarrow> string list" where
  "fields_from cur [] = (if cur = [] then [] else [cur])"
| "fields_from cur (c # cs) =
     (let w = space_width (c # cs) in
      if w = 0 then fields_from (cur @ [c]) cs
      else (if cur = [] then [] else [cur]) @ fields_from [] (drop (w - 1) cs))"

definition Fields :: "string \<Rightarrow> string list" where
  "Fields s = fields_from [] s"

section \<open>The DNS tester\<close>

subsection \<open>Messages, clients and the outside world\<close>

type_synonym ip = "8 word list"

text \<open>The resource records the tester's type switch tells apart; anything else is \<open>dns_other\<close>.\<close>

datatype rr =
    dns_A ip
  | dns_AAAA ip
  | dns_MX "16 word" string
  | dns_NS string
  | dns_TXT "string list"
  | dns_other

record question =
  Name :: string
  Qtype :: "16 word"
  Qclass :: "16 word"

record dns_msg =
  msg_Id :: "16 word"
  RecursionDesired :: bool
  Rcode :: int
  Question :: "question list"
  Answer :: "rr list"

record dns_client =
  ReadTimeout :: int

definition RcodeSuccess :: int where "RcodeSuccess = 0"
definition RcodeNameError :: int where "RcodeNameError = 3"

definition TypeA :: "16 word" where "TypeA = 1"
definition TypeNS :: "16 word" where "TypeNS = 2"
definition TypeMX :: "16 word" where "TypeMX = 15"
definition TypeTXT :: "16 word" where "TypeTXT = 16"
definition TypeAAAA :: "16 word" where "TypeAAAA = 28"
definition ClassINET :: "16 word" where "ClassINET = 1"

text \<open>
  What the \<open>miekg/dns\<close> and \<open>net\<close> libraries contribute is a parameter of the model:
  \<open>dns.Fqdn\<close>, the message id \<open>dns.Id()\<close> draws, the answer of \<open>Client.Exchange\<close>
  (response pointer and error; the round-trip time is dropped by the caller) and the
  rendering \<open>net.IP.String\<close>.
\<close>

record dns_env =
  dns_Fqdn :: "string \<Rightarrow> string"
  dns_Id :: "16 word"
  client_Exchange :: "dns_client \<Rightarrow> dns_msg \<Rightarrow> string \<Rightarrow> dns_msg option \<times> error option"
  IP_String :: "ip \<Rightarrow> string"

text \<open>Every call of \<open>Client.Exchange\<close> is recorded with the client, the query and the address.\<close>

datatype net_event = Exchanged dns_client dns_msg string

text \<open>
  The package-level variables \<open>localm\<close> and \<open>localc\<close> (pointers, \<open>nil\<close> until first
  assigned) and the log of network calls made so far.
\<close>

record dns_state =
  localm :: "dns_msg option"
  localc :: "dns_client option"
  net_log :: "net_event list"

text \<open>\<open>Msg.SetQuestion\<close>: a fresh id, recursion desired, one question of class INET.\<close>

definition SetQuestion :: "dns_env \<Rightarrow> dns_msg \<Rightarrow> string \<Rightarrow> 16 word \<Rightarrow> dns_msg" where
  "SetQuestion E m z t =
     m\<lparr>msg_Id := dns_Id E, RecursionDesired := True,
       Question := [\<lparr>Name = z, Qtype = t, Qclass = ClassINET\<rparr>]\<rparr>"

subsection \<open>localQuery\<close>

definition StringToType :: "string \<rightharpoonup> 16 word" where
  "StringToType = map_of
     [(''A'', TypeA), (''AAAA'', TypeAAAA), (''MX'', TypeMX), (''NS'', TypeNS), (''TXT'', TypeTXT)]"

definition sq :: string where
  "sq = [CHR 0x27]"

definition localQuery ::
  "dns_env \<Rightarrow> string \<Rightarrow> string \<Rightarrow> string \<Rightarrow> dns_state
     \<Rightarrow> (dns_msg option \<times> error option) result \<times> dns_state" where
  "localQuery E server qname lookupType s =
     (let qtype = (case StringToType lookupType of None \<Rightarrow> 0 | Some t \<Rightarrow> t) in
      if qtype = 0 then
        (Return (None, Some (ErrorString (''unsupported record to lookup '' @ sq @ lookupType @ sq))), s)
      else
        (case localm s of
           None \<Rightarrow> (Panic NilPointerDereference, s)
         | Some m \<Rightarrow>
            (let m' = SetQuestion E m qname qtype;
                 s1 = s\<lparr>localm := Some m'\<rparr>;
                 address = server @ '':'' @ Sprintf_d 53;
                 address = (if Contains_colon server
                            then ''['' @ server @ '']:'' @ Sprintf_d 53
                            else address)
             in (case localc s1 of
                   None \<Rightarrow> (Panic NilPointerDereference, s1)
                 | Some c \<Rightarrow>
                    (let (r, err) = client_Exchange E c m' address;
                         s2 = s1\<lparr>net_log := net_log s1 @ [Exchanged c m' address]\<rparr>
                     in if err \<noteq> None then (Return (None, err), s2)
                        else (case r of
                                None \<Rightarrow> (Return (r, err), s2)
                              | Some rm \<Rightarrow>
                                 (if Rcode rm = RcodeNameError \<or> Rcode rm = RcodeSuccess
                                  then (Return (r, err), s2)
                                  else (Return (None, None), s2))))))))"

subsection \<open>lookup\<close>

text \<open>
  The loop over \<open>r.Answer\<close>. \<open>txt[0]\<close> on a TXT record without any chunk is an index
  out of range.
\<close>

fun extract_answers :: "dns_env \<Rightarrow> rr list \<Rightarrow> string list \<Rightarrow> string list result" where
  "extract_answers E [] results = Return results"
| "extract_answers E (entry # rest) results =
     (case entry of
        dns_A a \<Rightarrow> extract_answers E rest (results @ [IP_String E a])
      | dns_AAAA aaaa \<Rightarrow> extract_answers E rest (results @ [IP_String E aaaa])
      | dns_MX mxPrio mxName \<Rightarrow>
          extract_answers E rest (results @ [Sprintf_d (uint mxPrio) @ '' '' @ mxName])
      | dns_NS nameserver \<Rightarrow> extract_answers E rest (results @ [nameserver])
      | dns_TXT txt \<Rightarrow>
          (case txt of
             [] \<Rightarrow> Panic (IndexOutOfRange 0 0)
           | t # _ \<Rightarrow> extract_answers E rest (results @ [t]))
      | dns_other \<Rightarrow> extract_answers E rest results)"

text \<open>
  The two composite literals \<open>lookup\<close> stores in the package-level variables:
  \<open>&dns.Msg{MsgHdr: dns.MsgHdr{RecursionDesired: true}, Question: make([]dns.Question, 1)}\<close>
  and \<open>&dns.Client{ReadTimeout: timeout}\<close>.
\<close>

definition new_Msg :: dns_msg where
  "new_Msg = \<lparr>msg_Id = 0, RecursionDesired = True, Rcode = 0,
               Question = [\<lparr>Name = [], Qtype = 0, Qclass = 0\<rparr>], Answer = []\<rparr>"

definition new_Client :: "int \<Rightarrow> dns_client" where
  "new_Client timeout = \<lparr>ReadTimeout = timeout\<rparr>"

text \<open>A \<open>nil\<close> slice of results is the empty list.\<close>

definition lookup ::
  "dns_env \<Rightarrow> string \<Rightarrow> string \<Rightarrow> string \<Rightarrow> int \<Rightarrow> dns_state
     \<Rightarrow> (string list \<times> error option) result \<times> dns_state" where
  "lookup E server name ltype timeout s =
     (let s1 = s\<lparr>localm := Some new_Msg\<rparr>;
          s2 = s1\<lparr>localc := Some (new_Client timeout)\<rparr>
      in case localQuery E server (dns_Fqdn E name) ltype s2 of
           (Panic p, s3) \<Rightarrow> (Panic p, s3)
         | (Return (r, err), s3) \<Rightarrow>
             (case (err, r) of
                (Some e, _) \<Rightarrow> (Return ([], err), s3)
              | (None, None) \<Rightarrow> (Return ([], err), s3)
              | (None, Some rm) \<Rightarrow>
                  if Rcode rm = RcodeNameError
                  then (Return ([], Some (ErrorString (''no such domain '' @ dns_Fqdn E name))), s3)
                  else (case extract_answers E (Answer rm) [] of
                          Panic p \<Rightarrow> (Panic p, s3)
                        | Return results \<Rightarrow> (Return (results, None), s3))))"

subsection \<open>RunTest\<close>

definition DNS_RunTest ::
  "dns_env \<Rightarrow> test \<Rightarrow> string \<Rightarrow> options \<Rightarrow> dns_state \<Rightarrow> error option result \<times> dns_state" where
  "DNS_RunTest E tst target opts s =
     (if arg tst ''lookup'' = [] then
        (Return (Some (ErrorString ''no value to lookup specified'')), s)
      else if arg tst ''type'' = [] then
        (Return (Some (ErrorString ''no record-type to lookup'')), s)
      else
        case lookup E target (arg tst ''lookup'') (arg tst ''type'') (Timeout opts) s of
          (Panic p, s') \<Rightarrow> (Panic p, s')
        | (Return (res, err), s') \<Rightarrow>
            if err \<noteq> None then (Return err, s')
            else
              let found = Join (sort_Strings res) '','' in
              if found \<noteq> arg tst ''result'' then
                (Return (Some (ErrorString
                   (''expected DNS result to be '' @ sq @ arg tst ''result'' @ sq
                      @ '', but found '' @ sq @ found @ sq))), s')
              else (Return None, s'))"

section \<open>The IMAPS tester\<close>

record dialer =
  dial_Timeout :: int

record tls_config =
  ServerName :: string
  InsecureSkipVerify :: bool

type_synonym conn = nat

text \<open>
  The \<open>go-imap\<close> client is a parameter: the outcome of the TLS dial (an error or a
  connection handle) and of \<open>Login\<close> and \<open>Logout\<close> on a connection.
\<close>

record imap_env =
  DialWithDialerTLS :: "dialer \<Rightarrow> string \<Rightarrow> tls_config \<Rightarrow> error + conn"
  con_Login :: "conn \<Rightarrow> string \<Rightarrow> string \<Rightarrow> error option"
  con_Logout :: "conn \<Rightarrow> error option"

text \<open>The calls made to the client library, in order; the deferred \<open>Close\<close> comes last.\<close>

datatype imap_event =
    Dialed dialer string tls_config
  | LoggedIn conn string string
  | LoggedOut conn
  | Closed conn

definition IMAPS_RunTest ::
  "imap_env \<Rightarrow> test \<Rightarrow> string \<Rightarrow> options \<Rightarrow> error option result \<times> imap_event list" where
  "IMAPS_RunTest E tst target opts =
     (case (if arg tst ''port'' \<noteq> [] then Atoi (arg tst ''port'') else Inr 993) of
        Inl err \<Rightarrow> (Return (Some err), [])
      | Inr port \<Rightarrow>
         (let insecure = (arg tst ''tls'' = ''insecure'');
              address = target @ '':'' @ Sprintf_d port;
              address = (if Contains_colon target
                         then ''['' @ target @ '']:'' @ Sprintf_d port
                         else address);
              dial = \<lparr>dial_Timeout = Timeout opts\<rparr>;
              data = Fields (Input tst)
          in (case data of
                [] \<Rightarrow> (Panic (IndexOutOfRange 0 0), [])
              | d0 # _ \<Rightarrow>
                 (let tlsSetup = \<lparr>ServerName = d0, InsecureSkipVerify = False\<rparr>;
                      tlsSetup = (if insecure
                                  then \<lparr>ServerName = [], InsecureSkipVerify = True\<rparr>
                                  else tlsSetup)
                  in (case DialWithDialerTLS E dial address tlsSetup of
                        Inl err \<Rightarrow> (Return (Some err), [Dialed dial address tlsSetup])
                      | Inr con \<Rightarrow>
                         (if arg tst ''username'' \<noteq> [] \<and> arg tst ''password'' \<noteq> [] then
                            (case con_Login E con (arg tst ''username'') (arg tst ''password'') of
                               Some err \<Rightarrow>
                                 (Return (Some err),
                                  [Dialed dial address tlsSetup,
                                   LoggedIn con (arg tst ''username'') (arg tst ''password''),
                                   Closed con])
                             | None \<Rightarrow>
                                 (case con_Logout E con of
                                    Some err \<Rightarrow>
                                      (Return (Some err),
                                       [Dialed dial address tlsSetup,
                                        LoggedIn con (arg tst ''username'') (arg tst ''password''),
                                        LoggedOut con, Closed con])
                                  | None \<Rightarrow>
                                      (Return None,
                                       [Dialed dial address tlsSetup,
                                        LoggedIn con (arg tst ''username'') (arg tst ''password''),
                                        LoggedOut con, Closed con])))
                          else (Return None, [Dialed dial address tlsSetup, Closed con])))))))"

section \<open>The enqueue command\<close>

datatype ExitStatus = ExitSuccess | ExitFailure | ExitUsageError

text \<open>
  \<open>redis.Options\<close> as the two variants of the command fill it, and the command's own
  flags. The older variant has only \<open>RedisHost\<close> and \<open>RedisPassword\<close>; it leaves the
  network and the dial timeout at their zero values and uses database 0.
\<close>

record redis_Options =
  Network :: string
  Addr :: string
  Password :: string
  DB :: int
  DialTimeout :: int

record enqueueCmd =
  RedisDB :: int
  RedisHost :: string
  RedisPassword :: string
  RedisSocket :: string
  RedisDialTimeout :: int

text \<open>
  The redis server and the test parser are parameters. \<open>'r\<close> is the state of the redis
  server; \<open>Ping\<close> and \<open>RPush\<close> go through a client built from the options and may change
  it. \<open>parser.ParseFile\<close> is given the file name and the callback and reports an error or
  none; what it reads, when it calls the callback and what it does after a callback error
  is left to it.
\<close>

record 'r enq_env =
  redis_Ping :: "redis_Options \<Rightarrow> 'r \<Rightarrow> error option \<times> 'r"
  redis_RPush :: "redis_Options \<Rightarrow> string \<Rightarrow> string \<Rightarrow> 'r \<Rightarrow> error option \<times> 'r"
  parser_ParseFile ::
    "string \<Rightarrow> (test \<Rightarrow> 'r \<Rightarrow> error option \<times> 'r) \<Rightarrow> 'r \<Rightarrow> error option \<times> 'r"

text \<open>
  What a run of the command leaves behind: the redis server, the file arguments handed to
  \<open>ParseFile\<close> (in order), and the lines printed (format and error).
\<close>

record 'r enq_state =
  redis :: 'r
  parsed :: "string list"
  printed :: "(string \<times> error) list"

text \<open>
  \<open>enqueueTest\<close> pushes the test's input line. It reads the client from the receiver's
  field \<open>_r\<close>, which \<open>Execute\<close> assigns before the first file is parsed; the model passes
  that client.
\<close>

definition enqueueTest ::
  "'r enq_env \<Rightarrow> redis_Options \<Rightarrow> test \<Rightarrow> 'r \<Rightarrow> error option \<times> 'r" where
  "enqueueTest E rc tst = redis_RPush E rc ''overseer.jobs'' (Input tst)"

subsection \<open>The older variant\<close>

fun files_loop0 :: "'r enq_env \<Rightarrow> redis_Options \<Rightarrow> string list \<Rightarrow> 'r enq_state \<Rightarrow> 'r enq_state" where
  "files_loop0 E rc [] s = s"
| "files_loop0 E rc (file # rest) s =
     (let (err, q) = parser_ParseFile E file (enqueueTest E rc) (redis s);
          s1 = s\<lparr>redis := q, parsed := parsed s @ [file]\<rparr>;
          s2 = (case err of
                  Some e \<Rightarrow> s1\<lparr>printed := printed s1 @ [(''Error parsing file: %s\<newline>'', e)]\<rparr>
                | None \<Rightarrow> s1)
      in files_loop0 E rc rest s2)"

definition Execute0 ::
  "'r enq_env \<Rightarrow> enqueueCmd \<Rightarrow> string list \<Rightarrow> 'r enq_state \<Rightarrow> ExitStatus \<times> 'r enq_state" where
  "Execute0 E p args s =
     (let rc = \<lparr>Network = [], Addr = RedisHost p, Password = RedisPassword p, DB = 0,
                 DialTimeout = 0\<rparr>;
          (err, q) = redis_Ping E rc (redis s);
          s1 = s\<lparr>redis := q\<rparr>
      in (case err of
            Some e \<Rightarrow>
              (ExitFailure, s1\<lparr>printed := printed s1 @ [(''Redis connection failed: %s\<newline>'', e)]\<rparr>)
          | None \<Rightarrow> (ExitSuccess, files_loop0 E rc args s1)))"

subsection \<open>The newer variant\<close>

text \<open>
  The loop either returns from \<open>Execute\<close> with an exit status (\<open>Some\<close>) or ends, by
  running out of files or by \<open>break\<close> (\<open>None\<close>).
\<close>

fun files_loop1 ::
  "'r enq_env \<Rightarrow> redis_Options \<Rightarrow> string list \<Rightarrow> 'r enq_state \<Rightarrow> ExitStatus option \<times> 'r enq_state" where
  "files_loop1 E rc [] s = (None, s)"
| "files_loop1 E rc (file # rest) s =
     (let (errParse, q) = parser_ParseFile E file (enqueueTest E rc) (redis s);
          s1 = s\<lparr>redis := q, parsed := parsed s @ [file]\<rparr>
      in (case errParse of
            Some e \<Rightarrow>
              (Some ExitFailure,
               s1\<lparr>printed := printed s1 @ [(''Error parsing file: %s\<newline>'', e)]\<rparr>)
          | None \<Rightarrow> (if file = ''-'' then (None, s1) else files_loop1 E rc rest s1)))"

definition Execute1 ::
  "'r enq_env \<Rightarrow> enqueueCmd \<Rightarrow> string list \<Rightarrow> 'r enq_state \<Rightarrow> ExitStatus \<times> 'r enq_state" where
  "Execute1 E p args s =
     (let rc = (if RedisSocket p \<noteq> []
                then \<lparr>Network = ''unix'', Addr = RedisSocket p, Password = RedisPassword p,
                      DB = RedisDB p, DialTimeout = RedisDialTimeout p\<rparr>
                else \<lparr>Network = [], Addr = RedisHost p, Password = RedisPassword p,
                      DB = RedisDB p, DialTimeout = RedisDialTimeout p\<rparr>);
          (err, q) = redis_Ping E rc (redis s);
          s1 = s\<lparr>redis := q\<rparr>
      in (case err of
            Some e \<Rightarrow>
              (ExitFailure, s1\<lparr>printed := printed s1 @ [(''Redis connection failed: %s\<newline>'', e)]\<rparr>)
          | None \<Rightarrow>
              (case files_loop1 E rc args s1 of
                 (Some status, s2) \<Rightarrow> (status, s2)
               | (None, s2) \<Rightarrow> (ExitSuccess, s2))))"

section \<open>Concrete inputs\<close>

text \<open>
  A DNS server that answers every query with the given response code and answer section,
  a test line for the DNS tester, and the package state of a fresh process.
\<close>

definition ex_dns_env :: "int \<Rightarrow> rr list \<Rightarrow> dns_env" where
  "ex_dns_env rcode answers =
     \<lparr>dns_Fqdn = (\<lambda>n. if n \<noteq> [] \<and> last n = CHR ''.'' then n else n @ ''.''),
      dns_Id = 4711,
      client_Exchange = (\<lambda>c m a.
         (Some \<lparr>msg_Id = msg_Id m, RecursionDesired = True, Rcode = rcode,
                 Question = Question m, Answer = answers\<rparr>, None)),
      IP_String = (\<lambda>_. ''192.0.2.1'')\<rparr>"

definition ex_dns_test :: "string \<Rightarrow> string \<Rightarrow> test" where
  "ex_dns_test ltype res =
     \<lparr>Input = ''ns.example.com must run dns'',
      Arguments = [''lookup'' \<mapsto> ''test.example.com'', ''type'' \<mapsto> ltype, ''result'' \<mapsto> res]\<rparr>"

definition dns_s0 :: dns_state where
  "dns_s0 = \<lparr>localm = None, localc = None, net_log = []\<rparr>"

text \<open>
  The UTF-8 encodings of the white-space runes, used to say that a string consists of
  white space only: it is a concatenation of members of this list.
\<close>

definition utf8_spaces :: "string list" where
  "utf8_spaces =
     [[CHR 0x09], [CHR 0x0A], [CHR 0x0B], [CHR 0x0C], [CHR 0x0D], [CHR 0x20],
      [CHR 0xC2, CHR 0x85], [CHR 0xC2, CHR 0xA0],
      [CHR 0xE1, CHR 0x9A, CHR 0x80],
      [CHR 0xE2, CHR 0x80, CHR 0x80], [CHR 0xE2, CHR 0x80, CHR 0x81],
      [CHR 0xE2, CHR 0x80, CHR 0x82], [CHR 0xE2, CHR 0x80, CHR 0x83],
      [CHR 0xE2, CHR 0x80, CHR 0x84], [CHR 0xE2, CHR 0x80, CHR 0x85],
      [CHR 0xE2, CHR 0x80, CHR 0x86], [CHR 0xE2, CHR 0x80, CHR 0x87],
      [CHR 0xE2, CHR 0x80, CHR 0x88], [CHR 0xE2, CHR 0x80, CHR 0x89],
      [CHR 0xE2, CHR 0x80, CHR 0x8A],
      [CHR 0xE2, CHR 0x80, CHR 0xA8], [CHR 0xE2, CHR 0x80, CHR 0xA9],
      [CHR 0xE2, CHR 0x80, CHR 0xAF],
      [CHR 0xE2, CHR 0x81, CHR 0x9F],
      [CHR 0xE3, CHR 0x80, CHR 0x80]]"

text \<open>
  An IMAP server that accepts the dial and answers \<open>Login\<close> and \<open>Logout\<close> as given, and a
  test line for the IMAPS tester with its arguments.
\<close>

definition ex_imap_env :: "error option \<Rightarrow> error option \<Rightarrow> imap_env" where
  "ex_imap_env login_err logout_err =
     \<lparr>DialWithDialerTLS = (\<lambda>d a cfg. Inr 1),
      con_Login = (\<lambda>con u p. login_err),
      con_Logout = (\<lambda>con. logout_err)\<rparr>"

definition ex_imap_test :: "(string \<rightharpoonup> string) \<Rightarrow> test" where
  "ex_imap_test args = \<lparr>Input = ''mail.example.com must run imaps'', Arguments = args\<rparr>"

text \<open>
  A redis server that keeps the list \<open>overseer.jobs\<close> and answers the ping as given, and a
  parser for which \<open>bad.conf\<close> cannot be read and every other file (and standard input)
  holds one test. The command's flags are the defaults.
\<close>

definition ex_enq_env :: "error option \<Rightarrow> string list enq_env" where
  "ex_enq_env ping_err =
     \<lparr>redis_Ping = (\<lambda>c q. (ping_err, q)),
      redis_RPush = (\<lambda>c key v q. (None, q @ [v])),
      parser_ParseFile = (\<lambda>file cb q.
         if file = ''bad.conf''
         then (Some (ExternalError ''open bad.conf: no such file or directory''), q)
         else cb \<lparr>Input = file @ '' must run ping'', Arguments = Map.empty\<rparr> q)\<rparr>"

definition ex_cmd :: enqueueCmd where
  "ex_cmd = \<lparr>RedisDB = 0, RedisHost = ''localhost:6379'', RedisPassword = [],
              RedisSocket = [], RedisDialTimeout = 5000000000\<rparr>"

definition enq_s0 :: "string list enq_state" where
  "enq_s0 = \<lparr>redis = [], parsed = [], printed = []\<rparr>"

section \<open>The reference for processing every file\<close>

text \<open>
  Not a function of the program, but what "every file argument is processed, each on its
  own" means: \<open>ParseFile\<close> is applied to each file argument in turn, with the command's
  callback, on the redis server as the file before left it. The result is the outcome of
  every file, in order, and the server at the end. The loops of the two variants are
  compared with it.
\<close>

fun parse_every_file ::
  "'r enq_env \<Rightarrow> redis_Options \<Rightarrow> string list \<Rightarrow> 'r \<Rightarrow> error option list \<times> 'r" where
  "parse_every_file E rc [] q = ([], q)"
| "parse_every_file E rc (file # rest) q =
     (let (err, q1) = parser_ParseFile E file (enqueueTest E rc) q;
          (errs, q2) = parse_every_file E rc rest q1
      in (err # errs, q2))"

section \<open>Properties\<close>

subsection \<open>Facts about the DNS tester\<close>

lemma Sprintf_d_53: "Sprintf_d 53 = ''53''"
  by (simp add: Sprintf_d_def nat_digits.simps)

lemma Sprintf_d_993: "Sprintf_d 993 = ''993''"
  by (simp add: Sprintf_d_def nat_digits.simps)

lemma StringToType_supported:
  "lt \<in> {''A'', ''AAAA'', ''MX'', ''NS'', ''TXT''} \<Longrightarrow> \<exists>t. StringToType lt = Some t \<and> t \<noteq> 0"
  by (auto simp: StringToType_def TypeA_def TypeAAAA_def TypeMX_def TypeNS_def TypeTXT_def)

lemma StringToType_Some:
  "StringToType lt = Some t \<Longrightarrow> t \<noteq> 0 \<and> lt \<in> {''A'', ''AAAA'', ''MX'', ''NS'', ''TXT''}"
  by (auto simp: StringToType_def TypeA_def TypeAAAA_def TypeMX_def TypeNS_def TypeTXT_def split: if_splits)

lemma StringToType_unsupported:
  "lt \<notin> {''A'', ''AAAA'', ''MX'', ''NS'', ''TXT''} \<Longrightarrow> StringToType lt = None"
  by (simp add: StringToType_def)

lemma localQuery_unsupported:
  "lt \<notin> {''A'', ''AAAA'', ''MX'', ''NS'', ''TXT''} \<Longrightarrow>
   localQuery E server qname lt s =
     (Return (None, Some (ErrorString (''unsupported record to lookup '' @ sq @ lt @ sq))), s)"
  by (simp add: localQuery_def StringToType_unsupported)

lemma localQuery_supported:
  assumes "StringToType lt = Some qt" "localm s = Some m" "localc s = Some c"
    and "client_Exchange E c (SetQuestion E m qname qt)
           (if CHR '':'' \<in> set server then ''['' @ server @ '']:53'' else server @ '':53'') = (r, err)"
  shows "localQuery E server qname lt s =
     (Return (if err \<noteq> None then (None, err)
              else (case r of None \<Rightarrow> (None, None)
                    | Some rm \<Rightarrow> if Rcode rm = RcodeNameError \<or> Rcode rm = RcodeSuccess
                                then (Some rm, None) else (None, None))),
      s\<lparr>localm := Some (SetQuestion E m qname qt),
        net_log := net_log s @ [Exchanged c (SetQuestion E m qname qt)
           (if CHR '':'' \<in> set server then ''['' @ server @ '']:53'' else server @ '':53'')]\<rparr>)"
  using assms StringToType_Some [OF assms(1)]
  by (auto simp: localQuery_def Let_def Sprintf_d_53 Contains_colon_def split: option.splits)


lemma lookup_unsupported:
  "lt \<notin> {''A'', ''AAAA'', ''MX'', ''NS'', ''TXT''} \<Longrightarrow>
   lookup E server name lt timeout s =
     (Return ([], Some (ErrorString (''unsupported record to lookup '' @ sq @ lt @ sq))),
      s\<lparr>localm := Some new_Msg, localc := Some (new_Client timeout)\<rparr>)"
  by (simp add: lookup_def localQuery_unsupported)

lemma lookup_supported:
  assumes "StringToType lt = Some qt"
    and "client_Exchange E (new_Client timeout) (SetQuestion E new_Msg (dns_Fqdn E name) qt)
           (if CHR '':'' \<in> set server then ''['' @ server @ '']:53'' else server @ '':53'') = (r, err)"
  shows "lookup E server name lt timeout s =
     ((case err of
         Some e \<Rightarrow> Return ([], err)
       | None \<Rightarrow>
          (case r of
             None \<Rightarrow> Return ([], None)
           | Some rm \<Rightarrow>
               if Rcode rm = RcodeNameError
               then Return ([], Some (ErrorString (''no such domain '' @ dns_Fqdn E name)))
               else if Rcode rm = RcodeSuccess
               then (case extract_answers E (Answer rm) [] of
                       Panic p \<Rightarrow> Panic p
                     | Return results \<Rightarrow> Return (results, None))
               else Return ([], None))),
      s\<lparr>localm := Some (SetQuestion E new_Msg (dns_Fqdn E name) qt),
        localc := Some (new_Client timeout),
        net_log := net_log s @ [Exchanged (new_Client timeout)
           (SetQuestion E new_Msg (dns_Fqdn E name) qt)
           (if CHR '':'' \<in> set server then ''['' @ server @ '']:53'' else server @ '':53'')]\<rparr>)"
proof -
  let ?s2 = "s\<lparr>localm := Some new_Msg, localc := Some (new_Client timeout)\<rparr>"
  have q: "localQuery E server (dns_Fqdn E name) lt ?s2 =
     (Return (if err \<noteq> None then (None, err)
              else (case r of None \<Rightarrow> (None, None)
                    | Some rm \<Rightarrow> if Rcode rm = RcodeNameError \<or> Rcode rm = RcodeSuccess
                                then (Some rm, None) else (None, None))),
      ?s2\<lparr>localm := Some (SetQuestion E new_Msg (dns_Fqdn E name) qt),
        net_log := net_log ?s2 @ [Exchanged (new_Client timeout) (SetQuestion E new_Msg (dns_Fqdn E name) qt)
           (if CHR '':'' \<in> set server then ''['' @ server @ '']:53'' else server @ '':53'')]\<rparr>)"
    by (rule localQuery_supported [OF assms(1) _ _ assms(2)]) simp_all
  show ?thesis
    unfolding lookup_def Let_def q
    by (cases err; cases r) (auto simp: RcodeNameError_def RcodeSuccess_def split: result.splits)
qed

lemma DNS_RunTest_via_lookup:
  assumes "arg tst ''lookup'' \<noteq> []" "arg tst ''type'' \<noteq> []"
  shows "DNS_RunTest E tst target opts s =
      (case lookup E target (arg tst ''lookup'') (arg tst ''type'') (Timeout opts) s of
         (Panic p, s') \<Rightarrow> (Panic p, s')
       | (Return (res, err), s') \<Rightarrow>
           (if err \<noteq> None then Return err
            else if Join (sort_Strings res) '','' \<noteq> arg tst ''result''
            then Return (Some (ErrorString
                   (''expected DNS result to be '' @ sq @ arg tst ''result'' @ sq
                      @ '', but found '' @ sq @ Join (sort_Strings res) '','' @ sq)))
            else Return None, s'))"
  using assms
  by (auto simp: DNS_RunTest_def Let_def split: prod.splits result.splits)

lemma ex_arg [simp]:
  "arg (ex_dns_test ltype res) ''lookup'' = ''test.example.com''"
  "arg (ex_dns_test ltype res) ''type'' = ltype"
  "arg (ex_dns_test ltype res) ''result'' = res"
  by (simp_all add: arg_def ex_dns_test_def)

subsection \<open>C2: the three-way handling of response codes\<close>

text \<open>
  C2. When the exchange itself reports no error and delivers a response \<open>r\<close>, the code
  of \<open>r\<close> is handled in exactly three ways. Success: \<open>localQuery\<close> hands \<open>r\<close> on,
  \<open>lookup\<close> returns the strings extracted from its answers, and \<open>RunTest\<close> compares
  them. Name error: \<open>lookup\<close>, and with it \<open>RunTest\<close>, returns the error
  "no such domain" followed by the fully qualified lookup name. Any other code:
  \<open>localQuery\<close> returns neither response nor error, \<open>lookup\<close> returns no answers and
  no error, and \<open>RunTest\<close> goes on to compare the empty result with the expected one.
\<close>
theorem dns_rcode_tri_state:
  assumes "arg tst ''lookup'' \<noteq> []"
    and "StringToType (arg tst ''type'') = Some qt"
    and "client_Exchange E (new_Client (Timeout opts))
           (SetQuestion E new_Msg (dns_Fqdn E (arg tst ''lookup'')) qt)
           (if CHR '':'' \<in> set target then ''['' @ target @ '']:53'' else target @ '':53'')
         = (Some r, None)"
  shows
    "(Rcode r = RcodeSuccess \<longrightarrow>
        fst (localQuery E target (dns_Fqdn E (arg tst ''lookup'')) (arg tst ''type'')
               (s\<lparr>localm := Some new_Msg, localc := Some (new_Client (Timeout opts))\<rparr>))
          = Return (Some r, None) \<and>
        fst (lookup E target (arg tst ''lookup'') (arg tst ''type'') (Timeout opts) s)
          = (case extract_answers E (Answer r) [] of
               Panic p \<Rightarrow> Panic p | Return results \<Rightarrow> Return (results, None)) \<and>
        fst (DNS_RunTest E tst target opts s)
          = (case extract_answers E (Answer r) [] of
               Panic p \<Rightarrow> Panic p
             | Return results \<Rightarrow>
                 if Join (sort_Strings results) '','' = arg tst ''result'' then Return None
                 else Return (Some (ErrorString
                        (''expected DNS result to be '' @ sq @ arg tst ''result'' @ sq
                           @ '', but found '' @ sq @ Join (sort_Strings results) '','' @ sq))))) \<and>
     (Rcode r = RcodeNameError \<longrightarrow>
        fst (localQuery E target (dns_Fqdn E (arg tst ''lookup'')) (arg tst ''type'')
               (s\<lparr>localm := Some new_Msg, localc := Some (new_Client (Timeout opts))\<rparr>))
          = Return (Some r, None) \<and>
        fst (lookup E target (arg tst ''lookup'') (arg tst ''type'') (Timeout opts) s)
          = Return ([], Some (ErrorString (''no such domain '' @ dns_Fqdn E (arg tst ''lookup'')))) \<and>
        fst (DNS_RunTest E tst target opts s)
          = Return (Some (ErrorString (''no such domain '' @ dns_Fqdn E (arg tst ''lookup''))))) \<and>
     (Rcode r \<noteq> RcodeSuccess \<and> Rcode r \<noteq> RcodeNameError \<longrightarrow>
        fst (localQuery E target (dns_Fqdn E (arg tst ''lookup'')) (arg tst ''type'')
               (s\<lparr>localm := Some new_Msg, localc := Some (new_Client (Timeout opts))\<rparr>))
          = Return (None, None) \<and>
        fst (lookup E target (arg tst ''lookup'') (arg tst ''type'') (Timeout opts) s)
          = Return ([], None) \<and>
        fst (DNS_RunTest E tst target opts s)
          = (if arg tst ''result'' = [] then Return None
             else Return (Some (ErrorString
                    (''expected DNS result to be '' @ sq @ arg tst ''result'' @ sq
                       @ '', but found '' @ sq @ sq)))))"
proof -
  let ?s2 = "s\<lparr>localm := Some new_Msg, localc := Some (new_Client (Timeout opts))\<rparr>"
  have ty: "arg tst ''type'' \<noteq> []"
    using StringToType_Some [OF assms(2)] by auto
  have q: "fst (localQuery E target (dns_Fqdn E (arg tst ''lookup'')) (arg tst ''type'') ?s2) =
      Return (if Rcode r = RcodeNameError \<or> Rcode r = RcodeSuccess then (Some r, None) else (None, None))"
    by (subst localQuery_supported [OF assms(2) _ _ assms(3)]) simp_all
  have l: "fst (lookup E target (arg tst ''lookup'') (arg tst ''type'') (Timeout opts) s) =
      (if Rcode r = RcodeNameError
       then Return ([], Some (ErrorString (''no such domain '' @ dns_Fqdn E (arg tst ''lookup''))))
       else if Rcode r = RcodeSuccess
       then (case extract_answers E (Answer r) [] of
               Panic p \<Rightarrow> Panic p | Return results \<Rightarrow> Return (results, None))
       else Return ([], None))"
    by (subst lookup_supported [OF assms(2) assms(3)]) simp
  have rt: "fst (DNS_RunTest E tst target opts s) =
      (case fst (lookup E target (arg tst ''lookup'') (arg tst ''type'') (Timeout opts) s) of
         Panic p \<Rightarrow> Panic p
       | Return (res, err) \<Rightarrow>
           if err \<noteq> None then Return err
           else if Join (sort_Strings res) '','' \<noteq> arg tst ''result''
           then Return (Some (ErrorString
                  (''expected DNS result to be '' @ sq @ arg tst ''result'' @ sq
                     @ '', but found '' @ sq @ Join (sort_Strings res) '','' @ sq)))
           else Return None)"
    using assms(1) ty
    by (auto simp: DNS_RunTest_def Let_def split: prod.splits result.splits)
  show ?thesis
    unfolding rt unfolding q l
    by (auto simp: RcodeNameError_def RcodeSuccess_def sort_Strings_def split: result.splits)
qed



theorem dns_rcode_tri_state_witness:
  "fst (DNS_RunTest (ex_dns_env 0 [dns_NS ''b.example.com.'', dns_NS ''a.example.com.''])
          (ex_dns_test ''NS'' ''a.example.com.,b.example.com.'') ''192.0.2.53'' \<lparr>Timeout = 5\<rparr> dns_s0)
     = Return None \<and>
   fst (DNS_RunTest (ex_dns_env 3 []) (ex_dns_test ''A'' []) ''192.0.2.53'' \<lparr>Timeout = 5\<rparr> dns_s0)
     = Return (Some (ErrorString ''no such domain test.example.com.'')) \<and>
   fst (DNS_RunTest (ex_dns_env 2 []) (ex_dns_test ''A'' []) ''192.0.2.53'' \<lparr>Timeout = 5\<rparr> dns_s0)
     = Return None"
proof -
  have n3: "fst (DNS_RunTest (ex_dns_env 3 []) (ex_dns_test ''A'' []) ''192.0.2.53'' \<lparr>Timeout = 5\<rparr> dns_s0)
     = Return (Some (ErrorString ''no such domain test.example.com.''))"
    using dns_rcode_tri_state [of "ex_dns_test ''A'' []" TypeA "ex_dns_env 3 []" "\<lparr>Timeout = 5\<rparr>"
        "''192.0.2.53''" _ dns_s0]
    by (simp add: ex_dns_env_def StringToType_def RcodeNameError_def RcodeSuccess_def)
  have n2: "fst (DNS_RunTest (ex_dns_env 2 []) (ex_dns_test ''A'' []) ''192.0.2.53'' \<lparr>Timeout = 5\<rparr> dns_s0)
     = Return None"
    using dns_rcode_tri_state [of "ex_dns_test ''A'' []" TypeA "ex_dns_env 2 []" "\<lparr>Timeout = 5\<rparr>"
        "''192.0.2.53''" _ dns_s0]
    by (simp add: ex_dns_env_def StringToType_def RcodeNameError_def RcodeSuccess_def)
  have n0: "fst (DNS_RunTest (ex_dns_env 0 [dns_NS ''b.example.com.'', dns_NS ''a.example.com.''])
          (ex_dns_test ''NS'' ''a.example.com.,b.example.com.'') ''192.0.2.53'' \<lparr>Timeout = 5\<rparr> dns_s0)
     = Return None"
    using dns_rcode_tri_state [of "ex_dns_test ''NS'' ''a.example.com.,b.example.com.''" TypeNS
        "ex_dns_env 0 [dns_NS ''b.example.com.'', dns_NS ''a.example.com.'']" "\<lparr>Timeout = 5\<rparr>"
        "''192.0.2.53''" _ dns_s0]
    by (simp add: ex_dns_env_def StringToType_def RcodeNameError_def RcodeSuccess_def
         sort_Strings_def less_eq_char_def less_char_def)
  from n0 n3 n2 show ?thesis by simp
qed

subsection \<open>Facts about joining and sorting\<close>

lemma Join_eq_Nil: "sep \<noteq> [] \<Longrightarrow> (Join xs sep = [] \<longleftrightarrow> xs = [] \<or> xs = [[]])"
  by (induction xs sep rule: Join.induct) auto

lemma sort_Strings_perm: "mset xs = mset ys \<Longrightarrow> sort_Strings xs = sort_Strings ys"
  unfolding sort_Strings_def
  by (rule properties_for_sort) simp_all

lemma sort_Strings_eq_Nil: "sort_Strings xs = [] \<longleftrightarrow> xs = []"
  by (cases xs) (simp_all add: sort_Strings_def)

lemma sort_Strings_single: "sort_Strings xs = [x] \<longleftrightarrow> xs = [x]"
proof
  assume "sort_Strings xs = [x]"
  then have "mset (sort xs) = mset [x]" by (simp add: sort_Strings_def)
  then show "xs = [x]" by simp
next
  assume "xs = [x]"
  then show "sort_Strings xs = [x]" by (simp add: sort_Strings_def)
qed

subsection \<open>Sorting, joining and comparing the answers\<close>

text \<open>
  What the comparison in \<open>RunTest\<close> computes. When \<open>lookup\<close> returns the answer strings
  \<open>res\<close> without error, \<open>RunTest\<close> returns nil exactly when the comma-join of the
  sorted strings equals the \<open>result\<close> argument, and otherwise a mismatch error that names
  the expected and the found string. The sorted list is a sorted permutation of \<open>res\<close>,
  so any permutation of the same answers gives the same joined string. For an empty
  \<open>result\<close> the comparison succeeds on two answer lists, the empty one and the one
  holding a single empty string, because both join to the empty string.
\<close>

lemma dns_sorted_join_compare:
  assumes "arg tst ''lookup'' \<noteq> []" and "arg tst ''type'' \<noteq> []"
    and "lookup E target (arg tst ''lookup'') (arg tst ''type'') (Timeout opts) s = (Return (res, None), s')"
  shows
    "DNS_RunTest E tst target opts s =
       ((if Join (sort_Strings res) '','' = arg tst ''result'' then Return None
         else Return (Some (ErrorString
                (''expected DNS result to be '' @ sq @ arg tst ''result'' @ sq
                   @ '', but found '' @ sq @ Join (sort_Strings res) '','' @ sq)))), s') \<and>
     sorted (sort_Strings res) \<and> mset (sort_Strings res) = mset res \<and>
     (\<forall>res'. mset res' = mset res \<longrightarrow>
        Join (sort_Strings res') '','' = Join (sort_Strings res) '','') \<and>
     (arg tst ''result'' = [] \<longrightarrow>
        (fst (DNS_RunTest E tst target opts s) = Return None \<longleftrightarrow> res = [] \<or> res = [[]]))"
proof -
  have rt: "DNS_RunTest E tst target opts s =
       ((if Join (sort_Strings res) '','' = arg tst ''result'' then Return None
         else Return (Some (ErrorString
                (''expected DNS result to be '' @ sq @ arg tst ''result'' @ sq
                   @ '', but found '' @ sq @ Join (sort_Strings res) '','' @ sq)))), s')"
    by (simp add: DNS_RunTest_via_lookup [OF assms(1,2)] assms(3))
  have srt: "sorted (sort_Strings res) \<and> mset (sort_Strings res) = mset res"
    by (simp add: sort_Strings_def)
  have perm: "\<forall>res'. mset res' = mset res \<longrightarrow>
        Join (sort_Strings res') '','' = Join (sort_Strings res) '',''"
    by (auto dest: sort_Strings_perm)
  have emp: "arg tst ''result'' = [] \<longrightarrow>
        (fst (DNS_RunTest E tst target opts s) = Return None \<longleftrightarrow> res = [] \<or> res = [[]])"
    unfolding rt by (simp add: Join_eq_Nil sort_Strings_eq_Nil sort_Strings_single)
  from rt srt perm emp show ?thesis by blast
qed

lemma DNS_RunTest_fst:
  assumes "arg tst ''lookup'' \<noteq> []" "arg tst ''type'' \<noteq> []"
  shows "fst (DNS_RunTest E tst target opts s) =
      (case fst (lookup E target (arg tst ''lookup'') (arg tst ''type'') (Timeout opts) s) of
         Panic p \<Rightarrow> Panic p
       | Return (res, err) \<Rightarrow>
           if err \<noteq> None then Return err
           else if Join (sort_Strings res) '','' \<noteq> arg tst ''result''
           then Return (Some (ErrorString
                  (''expected DNS result to be '' @ sq @ arg tst ''result'' @ sq
                     @ '', but found '' @ sq @ Join (sort_Strings res) '','' @ sq)))
           else Return None)"
  by (auto simp: DNS_RunTest_via_lookup [OF assms] split: prod.splits result.splits)

lemma ex_lookup_fst:
  assumes "StringToType lt = Some qt"
  shows "fst (lookup (ex_dns_env rc ans) server name lt t s) =
     (if rc = 3
      then Return ([], Some (ErrorString (''no such domain '' @ dns_Fqdn (ex_dns_env rc ans) name)))
      else if rc = 0
      then (case extract_answers (ex_dns_env rc ans) ans [] of
              Panic p \<Rightarrow> Panic p | Return results \<Rightarrow> Return (results, None))
      else Return ([], None))"
  by (subst lookup_supported [OF assms, where r = "fst (client_Exchange (ex_dns_env rc ans) c m a)"
        and err = None for c m a])
     (simp_all add: ex_dns_env_def RcodeNameError_def RcodeSuccess_def)

lemma dns_sorted_join_compare_example:
  "fst (DNS_RunTest (ex_dns_env 0 [dns_NS ''b'', dns_NS ''a'']) (ex_dns_test ''NS'' ''a,b'')
          ''192.0.2.53'' \<lparr>Timeout = 5\<rparr> dns_s0) = Return None \<and>
   fst (DNS_RunTest (ex_dns_env 0 [dns_NS ''a'', dns_NS ''b'']) (ex_dns_test ''NS'' ''a,b'')
          ''192.0.2.53'' \<lparr>Timeout = 5\<rparr> dns_s0) = Return None \<and>
   fst (DNS_RunTest (ex_dns_env 0 [dns_NS ''a'', dns_NS ''b'']) (ex_dns_test ''NS'' ''b,a'')
          ''192.0.2.53'' \<lparr>Timeout = 5\<rparr> dns_s0)
     = Return (Some (ErrorString (''expected DNS result to be '' @ sq @ ''b,a'' @ sq
                        @ '', but found '' @ sq @ ''a,b'' @ sq)))"
proof -
  have ty: "StringToType ''NS'' = Some TypeNS" by (simp add: StringToType_def)
  have l1: "lookup (ex_dns_env 0 [dns_NS ''b'', dns_NS ''a'']) ''192.0.2.53'' ''test.example.com'' ''NS'' 5 dns_s0
      = (Return ([''b'', ''a''], None),
         snd (lookup (ex_dns_env 0 [dns_NS ''b'', dns_NS ''a'']) ''192.0.2.53'' ''test.example.com'' ''NS'' 5 dns_s0))"
    by (simp add: prod_eq_iff ex_lookup_fst [OF ty])
  have l2: "lookup (ex_dns_env 0 [dns_NS ''a'', dns_NS ''b'']) ''192.0.2.53'' ''test.example.com'' ''NS'' 5 dns_s0
      = (Return ([''a'', ''b''], None),
         snd (lookup (ex_dns_env 0 [dns_NS ''a'', dns_NS ''b'']) ''192.0.2.53'' ''test.example.com'' ''NS'' 5 dns_s0))"
    by (simp add: prod_eq_iff ex_lookup_fst [OF ty])
  have srt: "sort_Strings [''b'', ''a''] = [''a'', ''b'']" "sort_Strings [''a'', ''b''] = [''a'', ''b'']"
    by (simp_all add: sort_Strings_def less_eq_char_def less_char_def)
  show ?thesis
    using dns_sorted_join_compare [of "ex_dns_test ''NS'' ''a,b''" "ex_dns_env 0 [dns_NS ''b'', dns_NS ''a'']"
            "''192.0.2.53''" "\<lparr>Timeout = 5\<rparr>" dns_s0 "[''b'', ''a'']"]
          dns_sorted_join_compare [of "ex_dns_test ''NS'' ''a,b''" "ex_dns_env 0 [dns_NS ''a'', dns_NS ''b'']"
            "''192.0.2.53''" "\<lparr>Timeout = 5\<rparr>" dns_s0 "[''a'', ''b'']"]
          dns_sorted_join_compare [of "ex_dns_test ''NS'' ''b,a''" "ex_dns_env 0 [dns_NS ''a'', dns_NS ''b'']"
            "''192.0.2.53''" "\<lparr>Timeout = 5\<rparr>" dns_s0 "[''a'', ''b'']"]
          l1 l2
    by (simp add: srt)
qed

subsection \<open>C4: an empty expected result and a non-empty answer set\<close>

text \<open>
  C4. The claim's last part, that an empty \<open>result\<close> matches the empty answer set and
  nothing else, is what the tester's own usage text promises (an empty result is for "zero
  returning records"), and the code misses it. The server answers the TXT query with one
  record whose first string is empty. \<open>lookup\<close> extracts the one answer string \<open>""\<close>,
  the join of that list is the empty string, and \<open>RunTest\<close> with \<open>result\<close> empty returns
  nil although the answer set is not empty.
\<close>
theorem dns_empty_result_single_empty_answer:
  "fst (lookup (ex_dns_env 0 [dns_TXT ['''']]) ''192.0.2.53'' ''test.example.com'' ''TXT'' 5 dns_s0)
     = Return ([''''], None) \<and>
   fst (DNS_RunTest (ex_dns_env 0 [dns_TXT ['''']]) (ex_dns_test ''TXT'' '''')
          ''192.0.2.53'' \<lparr>Timeout = 5\<rparr> dns_s0) = Return None"
proof -
  have ty: "StringToType ''TXT'' = Some TypeTXT" by (simp add: StringToType_def)
  have l: "fst (lookup (ex_dns_env 0 [dns_TXT ['''']]) ''192.0.2.53'' ''test.example.com'' ''TXT'' 5 dns_s0)
     = Return ([''''], None)"
    by (simp add: ex_lookup_fst [OF ty])
  have "fst (DNS_RunTest (ex_dns_env 0 [dns_TXT ['''']]) (ex_dns_test ''TXT'' '''')
          ''192.0.2.53'' \<lparr>Timeout = 5\<rparr> dns_s0) = Return None"
    by (simp add: DNS_RunTest_fst l sort_Strings_def)
  with l show ?thesis by simp
qed

subsection \<open>C5: argument errors come before any network call\<close>

text \<open>
  C5. An empty \<open>lookup\<close> argument, an empty \<open>type\<close> argument and a \<open>type\<close> outside
  A, AAAA, MX, NS, TXT each make \<open>RunTest\<close> return an error that names the argument
  problem, and in each case no exchange with the server has been made (the log of network
  calls is what it was). The type is looked up in the table \<open>StringToType\<close>; a token that
  is not in it is refused before the query is sent. With \<open>lookup\<close> given and a supported
  \<open>type\<close> exactly one exchange is made whatever \<open>result\<close> is, and an empty \<open>result\<close> is
  no error: against a successful response without answers \<open>RunTest\<close> returns nil.
\<close>
theorem dns_argument_errors:
  "(arg tst ''lookup'' = [] \<longrightarrow>
      DNS_RunTest E tst target opts s
        = (Return (Some (ErrorString ''no value to lookup specified'')), s)) \<and>
   (arg tst ''lookup'' \<noteq> [] \<and> arg tst ''type'' = [] \<longrightarrow>
      DNS_RunTest E tst target opts s
        = (Return (Some (ErrorString ''no record-type to lookup'')), s)) \<and>
   (arg tst ''lookup'' \<noteq> [] \<and> arg tst ''type'' \<noteq> [] \<and>
    arg tst ''type'' \<notin> {''A'', ''AAAA'', ''MX'', ''NS'', ''TXT''} \<longrightarrow>
      fst (DNS_RunTest E tst target opts s)
        = Return (Some (ErrorString
            (''unsupported record to lookup '' @ sq @ arg tst ''type'' @ sq)))) \<and>
   (arg tst ''lookup'' = [] \<or> arg tst ''type'' = [] \<or>
    arg tst ''type'' \<notin> {''A'', ''AAAA'', ''MX'', ''NS'', ''TXT''} \<longrightarrow>
      (\<exists>msg. fst (DNS_RunTest E tst target opts s) = Return (Some (ErrorString msg))) \<and>
      net_log (snd (DNS_RunTest E tst target opts s)) = net_log s) \<and>
   (arg tst ''lookup'' \<noteq> [] \<and> arg tst ''type'' \<in> {''A'', ''AAAA'', ''MX'', ''NS'', ''TXT''} \<longrightarrow>
      (\<exists>c m a. net_log (snd (DNS_RunTest E tst target opts s)) = net_log s @ [Exchanged c m a]) \<and>
      (\<forall>qt r. arg tst ''result'' = [] \<and> Rcode r = RcodeSuccess \<and> Answer r = [] \<and>
           StringToType (arg tst ''type'') = Some qt \<and>
           client_Exchange E (new_Client (Timeout opts))
             (SetQuestion E new_Msg (dns_Fqdn E (arg tst ''lookup'')) qt)
             (if CHR '':'' \<in> set target then ''['' @ target @ '']:53'' else target @ '':53'')
           = (Some r, None)
         \<longrightarrow> fst (DNS_RunTest E tst target opts s) = Return None))"
proof -
  have a: "arg tst ''lookup'' = [] \<longrightarrow>
      DNS_RunTest E tst target opts s
        = (Return (Some (ErrorString ''no value to lookup specified'')), s)"
    by (simp add: DNS_RunTest_def)
  have b: "arg tst ''lookup'' \<noteq> [] \<and> arg tst ''type'' = [] \<longrightarrow>
      DNS_RunTest E tst target opts s
        = (Return (Some (ErrorString ''no record-type to lookup'')), s)"
    by (simp add: DNS_RunTest_def)
  have c: "DNS_RunTest E tst target opts s
        = (Return (Some (ErrorString
            (''unsupported record to lookup '' @ sq @ arg tst ''type'' @ sq))),
           s\<lparr>localm := Some new_Msg, localc := Some (new_Client (Timeout opts))\<rparr>)"
    if "arg tst ''lookup'' \<noteq> []" "arg tst ''type'' \<noteq> []"
       "arg tst ''type'' \<notin> {''A'', ''AAAA'', ''MX'', ''NS'', ''TXT''}"
    using that by (simp add: DNS_RunTest_via_lookup lookup_unsupported)
  have c2: "arg tst ''lookup'' \<noteq> [] \<and> arg tst ''type'' \<noteq> [] \<and>
    arg tst ''type'' \<notin> {''A'', ''AAAA'', ''MX'', ''NS'', ''TXT''} \<longrightarrow>
      fst (DNS_RunTest E tst target opts s)
        = Return (Some (ErrorString
            (''unsupported record to lookup '' @ sq @ arg tst ''type'' @ sq)))"
    using c by simp
  have d: "arg tst ''lookup'' = [] \<or> arg tst ''type'' = [] \<or>
    arg tst ''type'' \<notin> {''A'', ''AAAA'', ''MX'', ''NS'', ''TXT''} \<longrightarrow>
      (\<exists>msg. fst (DNS_RunTest E tst target opts s) = Return (Some (ErrorString msg))) \<and>
      net_log (snd (DNS_RunTest E tst target opts s)) = net_log s"
  proof (cases "arg tst ''lookup'' = [] \<or> arg tst ''type'' = []")
    case True
    then show ?thesis using a b by (cases "arg tst ''lookup'' = []") auto
  next
    case False
    then show ?thesis using c by auto
  qed
  have e: "(\<exists>c m a. net_log (snd (DNS_RunTest E tst target opts s)) = net_log s @ [Exchanged c m a]) \<and>
      (\<forall>qt r. arg tst ''result'' = [] \<and> Rcode r = RcodeSuccess \<and> Answer r = [] \<and>
           StringToType (arg tst ''type'') = Some qt \<and>
           client_Exchange E (new_Client (Timeout opts))
             (SetQuestion E new_Msg (dns_Fqdn E (arg tst ''lookup'')) qt)
             (if CHR '':'' \<in> set target then ''['' @ target @ '']:53'' else target @ '':53'')
           = (Some r, None)
         \<longrightarrow> fst (DNS_RunTest E tst target opts s) = Return None)"
    if lk: "arg tst ''lookup'' \<noteq> []" and ty: "arg tst ''type'' \<in> {''A'', ''AAAA'', ''MX'', ''NS'', ''TXT''}"
  proof -
    from ty obtain qt where qt: "StringToType (arg tst ''type'') = Some qt"
      using StringToType_supported by blast
    from ty have ty': "arg tst ''type'' \<noteq> []" by auto
    let ?c = "new_Client (Timeout opts)"
    let ?m = "SetQuestion E new_Msg (dns_Fqdn E (arg tst ''lookup'')) qt"
    let ?a = "if CHR '':'' \<in> set target then ''['' @ target @ '']:53'' else target @ '':53''"
    obtain r err where ex: "client_Exchange E ?c ?m ?a = (r, err)" by (cases "client_Exchange E ?c ?m ?a")
    note lu = lookup_supported [OF qt ex, of s]
    have log: "net_log (snd (DNS_RunTest E tst target opts s)) = net_log s @ [Exchanged ?c ?m ?a]"
      by (simp add: DNS_RunTest_via_lookup [OF lk ty'] lu split: option.splits result.splits prod.splits)
    have "fst (DNS_RunTest E tst target opts s) = Return None"
      if "arg tst ''result'' = []" "Rcode r' = RcodeSuccess" "Answer r' = []"
         "client_Exchange E ?c ?m ?a = (Some r', None)" for r'
      using that ex
      by (simp add: DNS_RunTest_fst [OF lk ty'] lu RcodeSuccess_def RcodeNameError_def sort_Strings_def)
    with log qt show ?thesis by auto
  qed
  have e2: "arg tst ''lookup'' \<noteq> [] \<and> arg tst ''type'' \<in> {''A'', ''AAAA'', ''MX'', ''NS'', ''TXT''} \<longrightarrow>
      (\<exists>c m a. net_log (snd (DNS_RunTest E tst target opts s)) = net_log s @ [Exchanged c m a]) \<and>
      (\<forall>qt r. arg tst ''result'' = [] \<and> Rcode r = RcodeSuccess \<and> Answer r = [] \<and>
           StringToType (arg tst ''type'') = Some qt \<and>
           client_Exchange E (new_Client (Timeout opts))
             (SetQuestion E new_Msg (dns_Fqdn E (arg tst ''lookup'')) qt)
             (if CHR '':'' \<in> set target then ''['' @ target @ '']:53'' else target @ '':53'')
           = (Some r, None)
         \<longrightarrow> fst (DNS_RunTest E tst target opts s) = Return None)"
    using e by blast
  show ?thesis by (intro conjI a b c2 d e2)
qed

theorem dns_argument_errors_witness:
  "DNS_RunTest (ex_dns_env 0 []) \<lparr>Input = ''ns.example.com must run dns'', Arguments = Map.empty\<rparr>
      ''192.0.2.53'' \<lparr>Timeout = 5\<rparr> dns_s0
     = (Return (Some (ErrorString ''no value to lookup specified'')), dns_s0) \<and>
   DNS_RunTest (ex_dns_env 0 []) (ex_dns_test [] ''192.0.2.1'') ''192.0.2.53'' \<lparr>Timeout = 5\<rparr> dns_s0
     = (Return (Some (ErrorString ''no record-type to lookup'')), dns_s0) \<and>
   fst (DNS_RunTest (ex_dns_env 0 []) (ex_dns_test ''SOA'' ''192.0.2.1'') ''192.0.2.53''
          \<lparr>Timeout = 5\<rparr> dns_s0)
     = Return (Some (ErrorString (''unsupported record to lookup '' @ sq @ ''SOA'' @ sq))) \<and>
   net_log (snd (DNS_RunTest (ex_dns_env 0 []) (ex_dns_test ''SOA'' ''192.0.2.1'') ''192.0.2.53''
          \<lparr>Timeout = 5\<rparr> dns_s0)) = [] \<and>
   fst (DNS_RunTest (ex_dns_env 0 []) (ex_dns_test ''AAAA'' []) ''192.0.2.53''
          \<lparr>Timeout = 5\<rparr> dns_s0) = Return None"
proof -
  have 1: "DNS_RunTest (ex_dns_env 0 []) \<lparr>Input = ''ns.example.com must run dns'', Arguments = Map.empty\<rparr>
      ''192.0.2.53'' \<lparr>Timeout = 5\<rparr> dns_s0
     = (Return (Some (ErrorString ''no value to lookup specified'')), dns_s0)"
    using dns_argument_errors [of "\<lparr>Input = ''ns.example.com must run dns'', Arguments = Map.empty\<rparr>"
        "ex_dns_env 0 []" "''192.0.2.53''" "\<lparr>Timeout = 5\<rparr>" dns_s0]
    by (simp add: arg_def)
  have 2: "DNS_RunTest (ex_dns_env 0 []) (ex_dns_test [] ''192.0.2.1'') ''192.0.2.53'' \<lparr>Timeout = 5\<rparr> dns_s0
     = (Return (Some (ErrorString ''no record-type to lookup'')), dns_s0)"
    using dns_argument_errors [of "ex_dns_test [] ''192.0.2.1''"
        "ex_dns_env 0 []" "''192.0.2.53''" "\<lparr>Timeout = 5\<rparr>" dns_s0]
    by simp
  have 3: "fst (DNS_RunTest (ex_dns_env 0 []) (ex_dns_test ''SOA'' ''192.0.2.1'') ''192.0.2.53''
          \<lparr>Timeout = 5\<rparr> dns_s0)
     = Return (Some (ErrorString (''unsupported record to lookup '' @ sq @ ''SOA'' @ sq))) \<and>
   net_log (snd (DNS_RunTest (ex_dns_env 0 []) (ex_dns_test ''SOA'' ''192.0.2.1'') ''192.0.2.53''
          \<lparr>Timeout = 5\<rparr> dns_s0)) = []"
    using dns_argument_errors [of "ex_dns_test ''SOA'' ''192.0.2.1''"
        "ex_dns_env 0 []" "''192.0.2.53''" "\<lparr>Timeout = 5\<rparr>" dns_s0]
    by (simp add: dns_s0_def)
  have ty: "StringToType ''AAAA'' = Some TypeAAAA" by (simp add: StringToType_def)
  have 4: "fst (DNS_RunTest (ex_dns_env 0 []) (ex_dns_test ''AAAA'' []) ''192.0.2.53''
          \<lparr>Timeout = 5\<rparr> dns_s0) = Return None"
    using dns_argument_errors [of "ex_dns_test ''AAAA'' []"
        "ex_dns_env 0 []" "''192.0.2.53''" "\<lparr>Timeout = 5\<rparr>" dns_s0] ty
    by (simp add: ex_dns_env_def RcodeSuccess_def)
  from 1 2 3 4 show ?thesis by simp
qed

subsection \<open>C1: the package-level query and client\<close>

text \<open>
  C1, as amended. A \<open>RunTest\<close> call that fails the two checks for an empty \<open>lookup\<close> or
  \<open>type\<close> leaves the package state as it was. Every other call stores a freshly built
  client and query message in the package-level variables \<open>localc\<close> and \<open>localm\<close>, where
  they stay after the call. The variables are overwritten before they are read, so the value
  \<open>RunTest\<close> returns and the network calls it makes do not depend on what the variables
  held on entry.
\<close>
theorem dns_package_state_overwritten:
  "(arg tst ''lookup'' = [] \<or> arg tst ''type'' = [] \<longrightarrow>
      snd (DNS_RunTest E tst target opts s) = s) \<and>
   (arg tst ''lookup'' \<noteq> [] \<and> arg tst ''type'' \<noteq> [] \<longrightarrow>
      localc (snd (DNS_RunTest E tst target opts s)) = Some (new_Client (Timeout opts)) \<and>
      localm (snd (DNS_RunTest E tst target opts s))
        = Some (case StringToType (arg tst ''type'') of
                  None \<Rightarrow> new_Msg
                | Some qt \<Rightarrow> SetQuestion E new_Msg (dns_Fqdn E (arg tst ''lookup'')) qt)) \<and>
   fst (DNS_RunTest E tst target opts (s\<lparr>localm := m, localc := c\<rparr>))
     = fst (DNS_RunTest E tst target opts s) \<and>
   net_log (snd (DNS_RunTest E tst target opts (s\<lparr>localm := m, localc := c\<rparr>)))
     = net_log (snd (DNS_RunTest E tst target opts s))"
proof (cases "arg tst ''lookup'' = [] \<or> arg tst ''type'' = []")
  case True
  then show ?thesis by (auto simp: DNS_RunTest_def)
next
  case False
  then have lk: "arg tst ''lookup'' \<noteq> []" and ty: "arg tst ''type'' \<noteq> []" by simp_all
  show ?thesis
  proof (cases "arg tst ''type'' \<in> {''A'', ''AAAA'', ''MX'', ''NS'', ''TXT''}")
    case False
    then show ?thesis
      using lk ty by (simp add: DNS_RunTest_via_lookup lookup_unsupported StringToType_unsupported)
  next
    case True
    then obtain qt where qt: "StringToType (arg tst ''type'') = Some qt"
      using StringToType_supported by blast
    let ?c = "new_Client (Timeout opts)"
    let ?m = "SetQuestion E new_Msg (dns_Fqdn E (arg tst ''lookup'')) qt"
    let ?a = "if CHR '':'' \<in> set target then ''['' @ target @ '']:53'' else target @ '':53''"
    obtain r err where ex: "client_Exchange E ?c ?m ?a = (r, err)" by (cases "client_Exchange E ?c ?m ?a")
    note lu = lookup_supported [OF qt ex]
    show ?thesis
      using lk ty
      by (simp add: DNS_RunTest_via_lookup [OF lk ty] lu qt split: option.splits result.splits prod.splits)
  qed
qed

theorem dns_package_state_overwritten_witness:
  "localc (snd (DNS_RunTest (ex_dns_env 0 []) (ex_dns_test ''A'' []) ''192.0.2.53''
          \<lparr>Timeout = 5\<rparr> dns_s0)) = Some \<lparr>ReadTimeout = 5\<rparr> \<and>
   localm (snd (DNS_RunTest (ex_dns_env 0 []) (ex_dns_test ''A'' []) ''192.0.2.53''
          \<lparr>Timeout = 5\<rparr> dns_s0))
     = Some \<lparr>msg_Id = 4711, RecursionDesired = True, Rcode = 0,
              Question = [\<lparr>Name = ''test.example.com.'', Qtype = 1, Qclass = 1\<rparr>], Answer = []\<rparr> \<and>
   snd (DNS_RunTest (ex_dns_env 0 []) (ex_dns_test [] []) ''192.0.2.53'' \<lparr>Timeout = 5\<rparr> dns_s0)
     = dns_s0"
  using dns_package_state_overwritten [of "ex_dns_test ''A'' []" "ex_dns_env 0 []" "''192.0.2.53''"
          "\<lparr>Timeout = 5\<rparr>" dns_s0]
        dns_package_state_overwritten [of "ex_dns_test [] []" "ex_dns_env 0 []" "''192.0.2.53''"
          "\<lparr>Timeout = 5\<rparr>" dns_s0]
  by (simp add: StringToType_def new_Client_def new_Msg_def SetQuestion_def ex_dns_env_def
        TypeA_def ClassINET_def)

theorem dns_package_state_counterexample:
  "localm dns_s0 = None \<and> localc dns_s0 = None \<and>
   localm (snd (DNS_RunTest (ex_dns_env 0 []) (ex_dns_test ''A'' []) ''192.0.2.53''
          \<lparr>Timeout = 5\<rparr> dns_s0)) \<noteq> localm dns_s0 \<and>
   localc (snd (DNS_RunTest (ex_dns_env 0 []) (ex_dns_test ''A'' []) ''192.0.2.53''
          \<lparr>Timeout = 5\<rparr> dns_s0)) \<noteq> localc dns_s0"
proof -
  have ty: "StringToType ''A'' = Some TypeA" by (simp add: StringToType_def)
  obtain r err where ex: "client_Exchange (ex_dns_env 0 []) (new_Client 5)
      (SetQuestion (ex_dns_env 0 []) new_Msg (dns_Fqdn (ex_dns_env 0 []) ''test.example.com'') TypeA)
      (if CHR '':'' \<in> set ''192.0.2.53'' then ''['' @ ''192.0.2.53'' @ '']:53'' else ''192.0.2.53'' @ '':53'')
      = (r, err)"
    by (rule prod.exhaust)
  show ?thesis
    by (simp add: DNS_RunTest_via_lookup lookup_supported [OF ty ex] dns_s0_def
          split: option.splits result.splits prod.splits)
qed

subsection \<open>Facts about the IMAPS tester\<close>

lemma space_width_utf8: "\<forall>w \<in> set utf8_spaces. w \<noteq> [] \<and> space_width (w @ r) = length w"
  by (simp add: utf8_spaces_def space_width_def)

lemma fields_from_skip:
  assumes "w \<in> set utf8_spaces"
  shows "fields_from [] (w @ r) = fields_from [] r"
proof -
  from assms space_width_utf8 [of r] have ne: "w \<noteq> []" and sw: "space_width (w @ r) = length w"
    by auto
  from ne obtain c w' where w: "w = c # w'" by (cases w) auto
  from sw w have "space_width (c # (w' @ r)) = Suc (length w')" by simp
  then show ?thesis by (simp add: w)
qed

lemma Fields_blank: "set ws \<subseteq> set utf8_spaces \<Longrightarrow> Fields (concat ws) = []"
  unfolding Fields_def
  by (induction ws) (simp_all add: fields_from_skip)

lemma IMAPS_RunTest_port_error:
  "arg tst ''port'' \<noteq> [] \<Longrightarrow> Atoi (arg tst ''port'') = Inl e \<Longrightarrow>
   IMAPS_RunTest E tst target opts = (Return (Some e), [])"
  by (simp add: IMAPS_RunTest_def)

lemma IMAPS_RunTest_no_token:
  "(if arg tst ''port'' \<noteq> [] then Atoi (arg tst ''port'') else Inr 993) = Inr port \<Longrightarrow>
   Fields (Input tst) = [] \<Longrightarrow>
   IMAPS_RunTest E tst target opts = (Panic (IndexOutOfRange 0 0), [])"
  by (simp add: IMAPS_RunTest_def)

lemma IMAPS_RunTest_dial:
  assumes "(if arg tst ''port'' \<noteq> [] then Atoi (arg tst ''port'') else Inr 993) = Inr port"
    and "Fields (Input tst) = d0 # ds"
    and "dial = \<lparr>dial_Timeout = Timeout opts\<rparr>"
    and "address = (if CHR '':'' \<in> set target then ''['' @ target @ '']:'' @ Sprintf_d port
                    else target @ '':'' @ Sprintf_d port)"
    and "cfg = (if arg tst ''tls'' = ''insecure''
                then \<lparr>ServerName = [], InsecureSkipVerify = True\<rparr>
                else \<lparr>ServerName = d0, InsecureSkipVerify = False\<rparr>)"
  shows "IMAPS_RunTest E tst target opts =
     (case DialWithDialerTLS E dial address cfg of
        Inl err \<Rightarrow> (Return (Some err), [Dialed dial address cfg])
      | Inr con \<Rightarrow>
         (if arg tst ''username'' \<noteq> [] \<and> arg tst ''password'' \<noteq> [] then
            (case con_Login E con (arg tst ''username'') (arg tst ''password'') of
               Some err \<Rightarrow>
                 (Return (Some err),
                  [Dialed dial address cfg,
                   LoggedIn con (arg tst ''username'') (arg tst ''password''), Closed con])
             | None \<Rightarrow>
                 (case con_Logout E con of
                    Some err \<Rightarrow>
                      (Return (Some err),
                       [Dialed dial address cfg,
                        LoggedIn con (arg tst ''username'') (arg tst ''password''),
                        LoggedOut con, Closed con])
                  | None \<Rightarrow>
                      (Return None,
                       [Dialed dial address cfg,
                        LoggedIn con (arg tst ''username'') (arg tst ''password''),
                        LoggedOut con, Closed con])))
          else (Return None, [Dialed dial address cfg, Closed con])))"
  using assms(1,2)
  unfolding IMAPS_RunTest_def assms(3,4,5) Contains_colon_def Let_def
  by simp

lemma IMAPS_RunTest_log_dialed:
  assumes "snd (IMAPS_RunTest E tst target opts) = Dialed d a cfg # rest"
  obtains port d0 ds where
    "(if arg tst ''port'' \<noteq> [] then Atoi (arg tst ''port'') else Inr 993) = Inr port"
    "Fields (Input tst) = d0 # ds"
    "d = \<lparr>dial_Timeout = Timeout opts\<rparr>"
    "a = (if CHR '':'' \<in> set target then ''['' @ target @ '']:'' @ Sprintf_d port
          else target @ '':'' @ Sprintf_d port)"
    "cfg = (if arg tst ''tls'' = ''insecure''
            then \<lparr>ServerName = [], InsecureSkipVerify = True\<rparr>
            else \<lparr>ServerName = d0, InsecureSkipVerify = False\<rparr>)"
proof (cases "if arg tst ''port'' \<noteq> [] then Atoi (arg tst ''port'') else Inr 993")
  case (Inl e)
  then have "snd (IMAPS_RunTest E tst target opts) = []"
    by (simp add: IMAPS_RunTest_def)
  with assms show ?thesis by simp
next
  case (Inr port)
  show ?thesis
  proof (cases "Fields (Input tst)")
    case Nil
    with Inr have "snd (IMAPS_RunTest E tst target opts) = []"
      by (simp add: IMAPS_RunTest_def)
    with assms show ?thesis by simp
  next
    case (Cons d0 ds)
    from assms show ?thesis
      unfolding IMAPS_RunTest_dial [OF Inr Cons refl refl refl]
      by (intro that [OF Inr Cons]) (auto split: sum.splits option.splits if_splits)
  qed
qed

subsection \<open>C6: login and logout\<close>

text \<open>
  C6. Take an invocation that has dialled (the log starts with the dial) and whose dial gave
  the connection \<open>con\<close>. \<open>Login\<close> is called exactly when both \<open>username\<close> and \<open>password\<close>
  are non-empty. A login failure is the error \<open>RunTest\<close> returns, and no logout is
  attempted. After a successful login \<open>Logout\<close> is called; its failure is returned as the
  error, and only when it succeeds does \<open>RunTest\<close> return nil. With either credential
  empty nothing but the dial and the close happens and \<open>RunTest\<close> returns nil.
\<close>
theorem imaps_login_logout:
  assumes "snd (IMAPS_RunTest E tst target opts) = Dialed d a cfg # rest"
    and "DialWithDialerTLS E d a cfg = Inr con"
  shows
    "((\<exists>ev \<in> set (snd (IMAPS_RunTest E tst target opts)).
         ev = LoggedIn con (arg tst ''username'') (arg tst ''password''))
        \<longleftrightarrow> arg tst ''username'' \<noteq> [] \<and> arg tst ''password'' \<noteq> []) \<and>
     (arg tst ''username'' \<noteq> [] \<and> arg tst ''password'' \<noteq> [] \<longrightarrow>
        (\<forall>e. con_Login E con (arg tst ''username'') (arg tst ''password'') = Some e \<longrightarrow>
           IMAPS_RunTest E tst target opts
             = (Return (Some e),
                [Dialed d a cfg, LoggedIn con (arg tst ''username'') (arg tst ''password''),
                 Closed con])) \<and>
        (con_Login E con (arg tst ''username'') (arg tst ''password'') = None \<longrightarrow>
           (\<forall>e. con_Logout E con = Some e \<longrightarrow>
              IMAPS_RunTest E tst target opts
                = (Return (Some e),
                   [Dialed d a cfg, LoggedIn con (arg tst ''username'') (arg tst ''password''),
                    LoggedOut con, Closed con])) \<and>
           (con_Logout E con = None \<longrightarrow>
              IMAPS_RunTest E tst target opts
                = (Return None,
                   [Dialed d a cfg, LoggedIn con (arg tst ''username'') (arg tst ''password''),
                    LoggedOut con, Closed con])))) \<and>
     (arg tst ''username'' = [] \<or> arg tst ''password'' = [] \<longrightarrow>
        IMAPS_RunTest E tst target opts = (Return None, [Dialed d a cfg, Closed con]))"
proof -
  from assms(1) obtain port d0 ds where
    p: "(if arg tst ''port'' \<noteq> [] then Atoi (arg tst ''port'') else Inr 993) = Inr port"
    and f: "Fields (Input tst) = d0 # ds"
    and d: "d = \<lparr>dial_Timeout = Timeout opts\<rparr>"
    and a: "a = (if CHR '':'' \<in> set target then ''['' @ target @ '']:'' @ Sprintf_d port
          else target @ '':'' @ Sprintf_d port)"
    and cfg: "cfg = (if arg tst ''tls'' = ''insecure''
            then \<lparr>ServerName = [], InsecureSkipVerify = True\<rparr>
            else \<lparr>ServerName = d0, InsecureSkipVerify = False\<rparr>)"
    by (rule IMAPS_RunTest_log_dialed)
  note rt = IMAPS_RunTest_dial [OF p f d a cfg, of E]
  show ?thesis
    unfolding rt using assms(2)
    by (cases "con_Login E con (arg tst ''username'') (arg tst ''password'')";
        cases "con_Logout E con") simp_all
qed


lemma ex_imap_arg [simp]:
  "arg (ex_imap_test args) k = (case args k of None \<Rightarrow> [] | Some v \<Rightarrow> v)"
  by (simp add: arg_def ex_imap_test_def)

lemma ex_imap_Fields [simp]:
  "Fields (Input (ex_imap_test args)) = [''mail.example.com'', ''must'', ''run'', ''imaps'']"
  by (simp add: Fields_def space_width_def ex_imap_test_def)

lemma ex_imap_RunTest:
  assumes "args ''port'' = None"
  shows "IMAPS_RunTest (ex_imap_env x y) (ex_imap_test args) ''192.0.2.25'' \<lparr>Timeout = 5\<rparr> =
     (let cfg = (if arg (ex_imap_test args) ''tls'' = ''insecure''
                 then \<lparr>ServerName = [], InsecureSkipVerify = True\<rparr>
                 else \<lparr>ServerName = ''mail.example.com'', InsecureSkipVerify = False\<rparr>);
          u = arg (ex_imap_test args) ''username''; p = arg (ex_imap_test args) ''password'';
          dialed = Dialed \<lparr>dial_Timeout = 5\<rparr> ''192.0.2.25:993'' cfg
      in if u \<noteq> [] \<and> p \<noteq> [] then
           (case x of
              Some err \<Rightarrow> (Return (Some err), [dialed, LoggedIn 1 u p, Closed 1])
            | None \<Rightarrow>
               (case y of
                  Some err \<Rightarrow> (Return (Some err), [dialed, LoggedIn 1 u p, LoggedOut 1, Closed 1])
                | None \<Rightarrow> (Return None, [dialed, LoggedIn 1 u p, LoggedOut 1, Closed 1])))
         else (Return None, [dialed, Closed 1]))"
proof -
  have p: "(if arg (ex_imap_test args) ''port'' \<noteq> [] then Atoi (arg (ex_imap_test args) ''port'')
            else Inr 993) = Inr 993"
    using assms by simp
  have f: "Fields (Input (ex_imap_test args)) = ''mail.example.com'' # [''must'', ''run'', ''imaps'']"
    by simp
  show ?thesis
    unfolding IMAPS_RunTest_dial [OF p f refl refl refl]
    by (cases x; cases y) (simp_all add: ex_imap_env_def Sprintf_d_993 Let_def)
qed

theorem imaps_login_logout_witness:
  "IMAPS_RunTest (ex_imap_env (Some (ExternalError ''authentication failed'')) None)
      (ex_imap_test [''username'' \<mapsto> ''steve'', ''password'' \<mapsto> ''secret'']) ''192.0.2.25'' \<lparr>Timeout = 5\<rparr>
     = (Return (Some (ExternalError ''authentication failed'')),
        [Dialed \<lparr>dial_Timeout = 5\<rparr> ''192.0.2.25:993''
           \<lparr>ServerName = ''mail.example.com'', InsecureSkipVerify = False\<rparr>,
         LoggedIn 1 ''steve'' ''secret'', Closed 1]) \<and>
   IMAPS_RunTest (ex_imap_env None (Some (ExternalError ''connection reset'')))
      (ex_imap_test [''username'' \<mapsto> ''steve'', ''password'' \<mapsto> ''secret'']) ''192.0.2.25'' \<lparr>Timeout = 5\<rparr>
     = (Return (Some (ExternalError ''connection reset'')),
        [Dialed \<lparr>dial_Timeout = 5\<rparr> ''192.0.2.25:993''
           \<lparr>ServerName = ''mail.example.com'', InsecureSkipVerify = False\<rparr>,
         LoggedIn 1 ''steve'' ''secret'', LoggedOut 1, Closed 1]) \<and>
   IMAPS_RunTest (ex_imap_env None None)
      (ex_imap_test [''username'' \<mapsto> ''steve'', ''password'' \<mapsto> ''secret'']) ''192.0.2.25'' \<lparr>Timeout = 5\<rparr>
     = (Return None,
        [Dialed \<lparr>dial_Timeout = 5\<rparr> ''192.0.2.25:993''
           \<lparr>ServerName = ''mail.example.com'', InsecureSkipVerify = False\<rparr>,
         LoggedIn 1 ''steve'' ''secret'', LoggedOut 1, Closed 1]) \<and>
   IMAPS_RunTest (ex_imap_env None None)
      (ex_imap_test [''username'' \<mapsto> ''steve'']) ''192.0.2.25'' \<lparr>Timeout = 5\<rparr>
     = (Return None,
        [Dialed \<lparr>dial_Timeout = 5\<rparr> ''192.0.2.25:993''
           \<lparr>ServerName = ''mail.example.com'', InsecureSkipVerify = False\<rparr>,
         Closed 1])"
proof -
  let ?cfg = "\<lparr>ServerName = ''mail.example.com'', InsecureSkipVerify = False\<rparr>"
  let ?d = "\<lparr>dial_Timeout = 5\<rparr>"
  let ?both = "ex_imap_test [''username'' \<mapsto> ''steve'', ''password'' \<mapsto> ''secret'']"
  let ?one = "ex_imap_test [''username'' \<mapsto> ''steve'']"
  have hd: "snd (IMAPS_RunTest (ex_imap_env x y) ?both ''192.0.2.25'' \<lparr>Timeout = 5\<rparr>)
      = Dialed ?d ''192.0.2.25:993'' ?cfg
        # tl (snd (IMAPS_RunTest (ex_imap_env x y) ?both ''192.0.2.25'' \<lparr>Timeout = 5\<rparr>))" for x y
    by (cases x; cases y) (simp_all add: ex_imap_RunTest)
  have hd2: "snd (IMAPS_RunTest (ex_imap_env x y) ?one ''192.0.2.25'' \<lparr>Timeout = 5\<rparr>)
      = Dialed ?d ''192.0.2.25:993'' ?cfg
        # tl (snd (IMAPS_RunTest (ex_imap_env x y) ?one ''192.0.2.25'' \<lparr>Timeout = 5\<rparr>))" for x y
    by (simp add: ex_imap_RunTest)
  have dl: "DialWithDialerTLS (ex_imap_env x y) d a cfg = Inr 1" for x y d a cfg
    by (simp add: ex_imap_env_def)
  have lg: "con_Login (ex_imap_env x y) c u p = x" "con_Logout (ex_imap_env x y) c = y" for x y c u p
    by (simp_all add: ex_imap_env_def)
  show ?thesis
    using imaps_login_logout [OF hd dl, of "Some (ExternalError ''authentication failed'')" None]
          imaps_login_logout [OF hd dl, of None "Some (ExternalError ''connection reset'')"]
          imaps_login_logout [OF hd dl, of None None]
          imaps_login_logout [OF hd2 dl, of None None]
    by (simp add: lg)
qed

lemma IMAPS_RunTest_log_hd:
  assumes p: "(if arg tst ''port'' \<noteq> [] then Atoi (arg tst ''port'') else Inr 993) = Inr port"
    and f: "Fields (Input tst) = d0 # ds"
  shows "snd (IMAPS_RunTest E tst target opts)
           = Dialed \<lparr>dial_Timeout = Timeout opts\<rparr>
               (if CHR '':'' \<in> set target then ''['' @ target @ '']:'' @ Sprintf_d port
                else target @ '':'' @ Sprintf_d port)
               (if arg tst ''tls'' = ''insecure''
                then \<lparr>ServerName = [], InsecureSkipVerify = True\<rparr>
                else \<lparr>ServerName = d0, InsecureSkipVerify = False\<rparr>)
             # tl (snd (IMAPS_RunTest E tst target opts))"
    and "Dialed d a cfg \<notin> set (tl (snd (IMAPS_RunTest E tst target opts)))"
proof -
  define dl where "dl = \<lparr>dial_Timeout = Timeout opts\<rparr>"
  define ad where "ad = (if CHR '':'' \<in> set target then ''['' @ target @ '']:'' @ Sprintf_d port
            else target @ '':'' @ Sprintf_d port)"
  define cf where "cf = (if arg tst ''tls'' = ''insecure''
              then \<lparr>ServerName = [], InsecureSkipVerify = True\<rparr>
              else \<lparr>ServerName = d0, InsecureSkipVerify = False\<rparr>)"
  define u where "u = arg tst ''username''"
  define pw where "pw = arg tst ''password''"
  note rt = IMAPS_RunTest_dial [OF p f dl_def ad_def cf_def, where E = E, folded u_def pw_def]
  have "snd (IMAPS_RunTest E tst target opts) = Dialed dl ad cf # tl (snd (IMAPS_RunTest E tst target opts))
        \<and> Dialed d a cfg \<notin> set (tl (snd (IMAPS_RunTest E tst target opts)))"
  proof (cases "DialWithDialerTLS E dl ad cf")
    case (Inl e)
    then show ?thesis unfolding rt by simp
  next
    case dial: (Inr con)
    show ?thesis
    proof (cases "u \<noteq> [] \<and> pw \<noteq> []")
      case False
      then have "(if u \<noteq> [] \<and> pw \<noteq> [] then x else y) = y" for x y :: "error option result \<times> imap_event list"
        by auto
      with dial show ?thesis unfolding rt by simp
    next
      case True
      show ?thesis
      proof (cases "con_Login E con u pw")
        case (Some e)
        with dial True show ?thesis unfolding rt by simp
      next
        case None
        with dial True show ?thesis unfolding rt by (cases "con_Logout E con") simp_all
      qed
    qed
  qed
  then show "snd (IMAPS_RunTest E tst target opts)
           = Dialed \<lparr>dial_Timeout = Timeout opts\<rparr>
               (if CHR '':'' \<in> set target then ''['' @ target @ '']:'' @ Sprintf_d port
                else target @ '':'' @ Sprintf_d port)
               (if arg tst ''tls'' = ''insecure''
                then \<lparr>ServerName = [], InsecureSkipVerify = True\<rparr>
                else \<lparr>ServerName = d0, InsecureSkipVerify = False\<rparr>)
             # tl (snd (IMAPS_RunTest E tst target opts))"
    and "Dialed d a cfg \<notin> set (tl (snd (IMAPS_RunTest E tst target opts)))"
    unfolding dl_def ad_def cf_def by simp_all
qed

lemma IMAPS_RunTest_dialed_first:
  assumes "Dialed d a cfg \<in> set (snd (IMAPS_RunTest E tst target opts))"
  shows "\<exists>rest. snd (IMAPS_RunTest E tst target opts) = Dialed d a cfg # rest"
proof (cases "if arg tst ''port'' \<noteq> [] then Atoi (arg tst ''port'') else Inr 993")
  case (Inl e)
  then have "snd (IMAPS_RunTest E tst target opts) = []"
    by (simp add: IMAPS_RunTest_def)
  with assms show ?thesis by simp
next
  case (Inr port)
  show ?thesis
  proof (cases "Fields (Input tst)")
    case Nil
    with Inr have "snd (IMAPS_RunTest E tst target opts) = []"
      by (simp add: IMAPS_RunTest_def)
    with assms show ?thesis by simp
  next
    case (Cons d0 ds)
    note h = IMAPS_RunTest_log_hd [OF Inr Cons, where E = E and opts = opts and target = target]
    define L where "L = snd (IMAPS_RunTest E tst target opts)"
    define X where "X = Dialed \<lparr>dial_Timeout = Timeout opts\<rparr>
               (if CHR '':'' \<in> set target then ''['' @ target @ '']:'' @ Sprintf_d port
                else target @ '':'' @ Sprintf_d port)
               (if arg tst ''tls'' = ''insecure''
                then \<lparr>ServerName = [], InsecureSkipVerify = True\<rparr>
                else \<lparr>ServerName = d0, InsecureSkipVerify = False\<rparr>)"
    have eq: "L = X # tl L" unfolding L_def X_def by (rule h(1))
    have nin: "Dialed d a cfg \<notin> set (tl L)" unfolding L_def by (rule h(2))
    from assms have "Dialed d a cfg \<in> set L" by (simp add: L_def)
    then have "Dialed d a cfg \<in> set (X # tl L)" using eq by simp
    with nin have "X = Dialed d a cfg" by simp
    with eq have "L = Dialed d a cfg # tl L" by simp
    then show ?thesis unfolding L_def by (rule exI)
  qed
qed

subsection \<open>C7: the server name of the TLS configuration\<close>

text \<open>
  C7. Whenever the tester dials, the TLS configuration it passes is determined by the \<open>tls\<close>
  argument and the test's \<open>Input\<close>: with \<open>tls\<close> equal to \<open>insecure\<close> verification is
  switched off and no server name is set; otherwise verification stays on and the server
  name is the first white-space-delimited token of \<open>Input\<close> (not the \<open>target\<close>, which
  does not occur in the configuration). Once the port is resolved and \<open>Input\<close> has a token,
  the dial with that configuration is the first thing the tester does.
\<close>
theorem imaps_tls_server_name:
  "(\<forall>d a cfg. Dialed d a cfg \<in> set (snd (IMAPS_RunTest E tst target opts)) \<longrightarrow>
      (arg tst ''tls'' = ''insecure'' \<longrightarrow>
         cfg = \<lparr>ServerName = [], InsecureSkipVerify = True\<rparr>) \<and>
      (arg tst ''tls'' \<noteq> ''insecure'' \<longrightarrow>
         (\<exists>ds. Fields (Input tst) = ServerName cfg # ds) \<and> \<not> InsecureSkipVerify cfg)) \<and>
   (\<forall>port d0 ds.
      (if arg tst ''port'' \<noteq> [] then Atoi (arg tst ''port'') else Inr 993) = Inr port \<and>
      Fields (Input tst) = d0 # ds \<longrightarrow>
      (\<exists>d a rest. snd (IMAPS_RunTest E tst target opts)
         = Dialed d a (if arg tst ''tls'' = ''insecure''
                       then \<lparr>ServerName = [], InsecureSkipVerify = True\<rparr>
                       else \<lparr>ServerName = d0, InsecureSkipVerify = False\<rparr>) # rest))"
proof (intro conjI allI impI)
  fix d a cfg
  assume "Dialed d a cfg \<in> set (snd (IMAPS_RunTest E tst target opts))"
  then obtain rest where "snd (IMAPS_RunTest E tst target opts) = Dialed d a cfg # rest"
    using IMAPS_RunTest_dialed_first by blast
  then obtain d0 ds where f: "Fields (Input tst) = d0 # ds"
    and cfg: "cfg = (if arg tst ''tls'' = ''insecure''
            then \<lparr>ServerName = [], InsecureSkipVerify = True\<rparr>
            else \<lparr>ServerName = d0, InsecureSkipVerify = False\<rparr>)"
    by (rule IMAPS_RunTest_log_dialed)
  show "arg tst ''tls'' = ''insecure'' \<Longrightarrow> cfg = \<lparr>ServerName = [], InsecureSkipVerify = True\<rparr>"
    using cfg by simp
  show "arg tst ''tls'' \<noteq> ''insecure'' \<Longrightarrow> \<exists>ds. Fields (Input tst) = ServerName cfg # ds"
    using cfg f by simp
  show "arg tst ''tls'' \<noteq> ''insecure'' \<Longrightarrow> \<not> InsecureSkipVerify cfg"
    using cfg by simp
next
  fix port d0 ds
  assume "(if arg tst ''port'' \<noteq> [] then Atoi (arg tst ''port'') else Inr 993) = Inr port \<and>
      Fields (Input tst) = d0 # ds"
  then have p: "(if arg tst ''port'' \<noteq> [] then Atoi (arg tst ''port'') else Inr 993) = Inr port"
    and f: "Fields (Input tst) = d0 # ds" by simp_all
  from IMAPS_RunTest_log_hd(1) [OF p f, where E = E and opts = opts and target = target]
  show "\<exists>d a rest. snd (IMAPS_RunTest E tst target opts)
         = Dialed d a (if arg tst ''tls'' = ''insecure''
                       then \<lparr>ServerName = [], InsecureSkipVerify = True\<rparr>
                       else \<lparr>ServerName = d0, InsecureSkipVerify = False\<rparr>) # rest"
    by (intro exI)
qed

theorem imaps_tls_server_name_witness:
  "Fields (Input (ex_imap_test Map.empty)) = [''mail.example.com'', ''must'', ''run'', ''imaps''] \<and>
   (\<exists>d a rest. snd (IMAPS_RunTest (ex_imap_env None None) (ex_imap_test Map.empty) ''192.0.2.25''
              \<lparr>Timeout = 5\<rparr>)
     = Dialed d a \<lparr>ServerName = ''mail.example.com'', InsecureSkipVerify = False\<rparr> # rest) \<and>
   (\<exists>d a rest. snd (IMAPS_RunTest (ex_imap_env None None)
              (ex_imap_test [''tls'' \<mapsto> ''insecure'']) ''192.0.2.25'' \<lparr>Timeout = 5\<rparr>)
     = Dialed d a \<lparr>ServerName = [], InsecureSkipVerify = True\<rparr> # rest)"
proof -
  have p: "(if arg (ex_imap_test args) ''port'' \<noteq> [] then Atoi (arg (ex_imap_test args) ''port'')
            else Inr 993) = Inr 993" if "args ''port'' = None" for args
    using that by simp
  have f: "Fields (Input (ex_imap_test args)) = ''mail.example.com'' # [''must'', ''run'', ''imaps'']" for args
    by simp
  have "\<exists>d a rest. snd (IMAPS_RunTest (ex_imap_env None None) (ex_imap_test Map.empty) ''192.0.2.25''
              \<lparr>Timeout = 5\<rparr>)
     = Dialed d a \<lparr>ServerName = ''mail.example.com'', InsecureSkipVerify = False\<rparr> # rest"
    using imaps_tls_server_name [of "ex_imap_env None None" "ex_imap_test Map.empty" "''192.0.2.25''"
            "\<lparr>Timeout = 5\<rparr>"] p [of Map.empty] f [of Map.empty]
    by (simp del: ex_imap_Fields ex_imap_arg add: arg_def ex_imap_test_def)
  moreover have "\<exists>d a rest. snd (IMAPS_RunTest (ex_imap_env None None)
              (ex_imap_test [''tls'' \<mapsto> ''insecure'']) ''192.0.2.25'' \<lparr>Timeout = 5\<rparr>)
     = Dialed d a \<lparr>ServerName = [], InsecureSkipVerify = True\<rparr> # rest"
    using imaps_tls_server_name [of "ex_imap_env None None" "ex_imap_test [''tls'' \<mapsto> ''insecure'']"
            "''192.0.2.25''" "\<lparr>Timeout = 5\<rparr>"] p [of "[''tls'' \<mapsto> ''insecure'']"]
          f [of "[''tls'' \<mapsto> ''insecure'']"]
    by (simp del: ex_imap_Fields ex_imap_arg add: arg_def ex_imap_test_def)
  ultimately show ?thesis using f [of Map.empty] by blast
qed

lemma DNS_RunTest_log:
  assumes lk: "arg tst ''lookup'' \<noteq> []" and qt: "StringToType (arg tst ''type'') = Some qt"
  shows "net_log (snd (DNS_RunTest E tst target opts s))
    = net_log s @ [Exchanged (new_Client (Timeout opts))
                     (SetQuestion E new_Msg (dns_Fqdn E (arg tst ''lookup'')) qt)
                     (if CHR '':'' \<in> set target then ''['' @ target @ '']:53'' else target @ '':53'')]"
proof -
  from StringToType_Some [OF qt] have ty: "arg tst ''type'' \<noteq> []" by auto
  let ?c = "new_Client (Timeout opts)"
  let ?m = "SetQuestion E new_Msg (dns_Fqdn E (arg tst ''lookup'')) qt"
  let ?a = "if CHR '':'' \<in> set target then ''['' @ target @ '']:53'' else target @ '':53''"
  obtain r err where ex: "client_Exchange E ?c ?m ?a = (r, err)" by (cases "client_Exchange E ?c ?m ?a")
  note lu = lookup_supported [OF qt ex, of s]
  show ?thesis
    by (simp add: DNS_RunTest_via_lookup [OF lk ty] lu split: option.splits result.splits prod.splits)
qed

subsection \<open>C8: the connection address\<close>

text \<open>
  C8. Both testers build the address from the target by looking for a colon only. The DNS
  tester, given a \<open>lookup\<close> and a supported \<open>type\<close>, exchanges with \<open>[target]:53\<close> when
  the target contains a colon and with \<open>target:53\<close> when it does not. The IMAPS tester
  dials \<open>[target]:port\<close> or \<open>target:port\<close> by the same test, where the port is 993
  without a \<open>port\<close> argument and the parsed argument, printed in decimal, with one.
\<close>
theorem address_colon_heuristic:
  "(arg tst ''lookup'' \<noteq> [] \<and> arg tst ''type'' \<in> {''A'', ''AAAA'', ''MX'', ''NS'', ''TXT''} \<longrightarrow>
      (\<exists>c m. net_log (snd (DNS_RunTest E tst target opts s))
         = net_log s @ [Exchanged c m
             (if CHR '':'' \<in> set target then ''['' @ target @ '']:53'' else target @ '':53'')])) \<and>
   (\<forall>d0 ds. arg tst' ''port'' = [] \<and> Fields (Input tst') = d0 # ds \<longrightarrow>
      (\<exists>d cfg rest. snd (IMAPS_RunTest E' tst' target opts)
         = Dialed d (if CHR '':'' \<in> set target then ''['' @ target @ '']:993''
                     else target @ '':993'') cfg # rest)) \<and>
   (\<forall>port d0 ds. arg tst' ''port'' \<noteq> [] \<and> Atoi (arg tst' ''port'') = Inr port \<and>
        Fields (Input tst') = d0 # ds \<longrightarrow>
      (\<exists>d cfg rest. snd (IMAPS_RunTest E' tst' target opts)
         = Dialed d (if CHR '':'' \<in> set target then ''['' @ target @ '']:'' @ Sprintf_d port
                     else target @ '':'' @ Sprintf_d port) cfg # rest))"
proof (intro conjI allI impI)
  assume "arg tst ''lookup'' \<noteq> [] \<and> arg tst ''type'' \<in> {''A'', ''AAAA'', ''MX'', ''NS'', ''TXT''}"
  then have lk: "arg tst ''lookup'' \<noteq> []"
    and "arg tst ''type'' \<in> {''A'', ''AAAA'', ''MX'', ''NS'', ''TXT''}" by simp_all
  then obtain qt where qt: "StringToType (arg tst ''type'') = Some qt"
    using StringToType_supported by blast
  from DNS_RunTest_log [OF lk qt, of E target opts s]
  show "\<exists>c m. net_log (snd (DNS_RunTest E tst target opts s))
         = net_log s @ [Exchanged c m
             (if CHR '':'' \<in> set target then ''['' @ target @ '']:53'' else target @ '':53'')]"
    by (intro exI)
next
  fix d0 ds
  assume "arg tst' ''port'' = [] \<and> Fields (Input tst') = d0 # ds"
  then have p: "(if arg tst' ''port'' \<noteq> [] then Atoi (arg tst' ''port'') else Inr 993) = Inr 993"
    and f: "Fields (Input tst') = d0 # ds" by simp_all
  from IMAPS_RunTest_log_hd(1) [OF p f, where E = E' and opts = opts and target = target]
  have "snd (IMAPS_RunTest E' tst' target opts)
         = Dialed \<lparr>dial_Timeout = Timeout opts\<rparr>
            (if CHR '':'' \<in> set target then ''['' @ target @ '']:993'' else target @ '':993'')
            (if arg tst' ''tls'' = ''insecure''
                then \<lparr>ServerName = [], InsecureSkipVerify = True\<rparr>
                else \<lparr>ServerName = d0, InsecureSkipVerify = False\<rparr>)
           # tl (snd (IMAPS_RunTest E' tst' target opts))"
    by (simp only: Sprintf_d_993 append.simps)
  then show "\<exists>d cfg rest. snd (IMAPS_RunTest E' tst' target opts)
         = Dialed d (if CHR '':'' \<in> set target then ''['' @ target @ '']:993''
                     else target @ '':993'') cfg # rest"
    by (intro exI)
next
  fix port d0 ds
  assume "arg tst' ''port'' \<noteq> [] \<and> Atoi (arg tst' ''port'') = Inr port \<and>
        Fields (Input tst') = d0 # ds"
  then have p: "(if arg tst' ''port'' \<noteq> [] then Atoi (arg tst' ''port'') else Inr 993) = Inr port"
    and f: "Fields (Input tst') = d0 # ds" by simp_all
  from IMAPS_RunTest_log_hd(1) [OF p f, where E = E' and opts = opts and target = target]
  show "\<exists>d cfg rest. snd (IMAPS_RunTest E' tst' target opts)
         = Dialed d (if CHR '':'' \<in> set target then ''['' @ target @ '']:'' @ Sprintf_d port
                     else target @ '':'' @ Sprintf_d port) cfg # rest"
    by (intro exI)
qed

theorem address_colon_heuristic_witness:
  "(\<exists>c m. net_log (snd (DNS_RunTest (ex_dns_env 0 []) (ex_dns_test ''A'' []) ''2001:db8::53''
                           \<lparr>Timeout = 5\<rparr> dns_s0))
      = [Exchanged c m ''[2001:db8::53]:53'']) \<and>
   (\<exists>c m. net_log (snd (DNS_RunTest (ex_dns_env 0 []) (ex_dns_test ''A'' []) ''192.0.2.53''
                           \<lparr>Timeout = 5\<rparr> dns_s0))
      = [Exchanged c m ''192.0.2.53:53'']) \<and>
   (\<exists>d cfg rest. snd (IMAPS_RunTest (ex_imap_env None None) (ex_imap_test Map.empty)
                         ''2001:db8::53'' \<lparr>Timeout = 5\<rparr>)
      = Dialed d ''[2001:db8::53]:993'' cfg # rest) \<and>
   (\<exists>d cfg rest. snd (IMAPS_RunTest (ex_imap_env None None) (ex_imap_test [''port'' \<mapsto> ''143''])
                         ''192.0.2.53'' \<lparr>Timeout = 5\<rparr>)
      = Dialed d ''192.0.2.53:143'' cfg # rest)"
proof -
  have at: "Atoi ''143'' = Inr 143" by (simp add: Atoi_def)
  have sp: "Sprintf_d 143 = ''143''" by (simp add: Sprintf_d_def nat_digits.simps)
  have c1: "CHR '':'' \<in> set ''2001:db8::53''" by simp
  have c2: "CHR '':'' \<notin> set ''192.0.2.53''" by simp
  have f: "Fields (Input (ex_imap_test args)) = ''mail.example.com'' # [''must'', ''run'', ''imaps'']" for args
    by simp
  have "(\<exists>c m. net_log (snd (DNS_RunTest (ex_dns_env 0 []) (ex_dns_test ''A'' []) ''2001:db8::53''
                           \<lparr>Timeout = 5\<rparr> dns_s0))
      = [Exchanged c m ''[2001:db8::53]:53'']) \<and>
     (\<exists>d cfg rest. snd (IMAPS_RunTest (ex_imap_env None None) (ex_imap_test Map.empty)
                         ''2001:db8::53'' \<lparr>Timeout = 5\<rparr>)
      = Dialed d ''[2001:db8::53]:993'' cfg # rest)"
    using address_colon_heuristic [of "ex_dns_test ''A'' []" "ex_dns_env 0 []" "''2001:db8::53''"
            "\<lparr>Timeout = 5\<rparr>" dns_s0 "ex_imap_test Map.empty" "ex_imap_env None None"]
          f [of Map.empty]
    by (simp only: c1 if_True) (simp add: dns_s0_def)
  moreover
  have "(\<exists>c m. net_log (snd (DNS_RunTest (ex_dns_env 0 []) (ex_dns_test ''A'' []) ''192.0.2.53''
                           \<lparr>Timeout = 5\<rparr> dns_s0))
      = [Exchanged c m ''192.0.2.53:53'']) \<and>
     (\<exists>d cfg rest. snd (IMAPS_RunTest (ex_imap_env None None) (ex_imap_test [''port'' \<mapsto> ''143''])
                         ''192.0.2.53'' \<lparr>Timeout = 5\<rparr>)
      = Dialed d ''192.0.2.53:143'' cfg # rest)"
    using address_colon_heuristic [of "ex_dns_test ''A'' []" "ex_dns_env 0 []" "''192.0.2.53''"
            "\<lparr>Timeout = 5\<rparr>" dns_s0 "ex_imap_test [''port'' \<mapsto> ''143'']" "ex_imap_env None None"]
          f [of "[''port'' \<mapsto> ''143'']"]
    by (simp only: c2 if_False) (simp add: dns_s0_def at sp)
  ultimately show ?thesis by blast
qed

subsection \<open>C9: an input without any token\<close>

text \<open>
  C9, as amended. Let the \<open>port\<close> argument be empty or parse as an integer, and let
  \<open>Input\<close> consist of white space only (a concatenation of encoded white-space runes,
  possibly none). Then \<open>strings.Fields\<close> yields no token and \<open>RunTest\<close> panics on the
  index \<open>0\<close> of the empty slice before it dials, whatever \<open>tls\<close> is, so also for
  \<open>insecure\<close>. When the \<open>port\<close> argument is non-empty and does not parse, \<open>RunTest\<close>
  has already returned the parse error and the token list is never built.
\<close>
theorem imaps_blank_input_panics:
  "(\<forall>ws. (arg tst ''port'' = [] \<or> (\<exists>port. Atoi (arg tst ''port'') = Inr port)) \<and>
         Input tst = concat ws \<and> set ws \<subseteq> set utf8_spaces \<longrightarrow>
      Fields (Input tst) = [] \<and>
      IMAPS_RunTest E tst target opts = (Panic (IndexOutOfRange 0 0), [])) \<and>
   (\<forall>e. arg tst ''port'' \<noteq> [] \<and> Atoi (arg tst ''port'') = Inl e \<longrightarrow>
      IMAPS_RunTest E tst target opts = (Return (Some e), []))"
proof (intro conjI allI impI)
  fix ws
  assume h: "(arg tst ''port'' = [] \<or> (\<exists>port. Atoi (arg tst ''port'') = Inr port)) \<and>
         Input tst = concat ws \<and> set ws \<subseteq> set utf8_spaces"
  then show f: "Fields (Input tst) = []" by (simp add: Fields_blank)
  from h obtain port where
    "(if arg tst ''port'' \<noteq> [] then Atoi (arg tst ''port'') else Inr 993) = Inr port"
    by (cases "arg tst ''port'' = []") auto
  then show "IMAPS_RunTest E tst target opts = (Panic (IndexOutOfRange 0 0), [])"
    using f by (rule IMAPS_RunTest_no_token)
next
  fix e
  assume "arg tst ''port'' \<noteq> [] \<and> Atoi (arg tst ''port'') = Inl e"
  then show "IMAPS_RunTest E tst target opts = (Return (Some e), [])"
    by (simp add: IMAPS_RunTest_port_error)
qed

theorem imaps_blank_input_panics_witness:
  "IMAPS_RunTest (ex_imap_env None None)
      \<lparr>Input = [CHR 0x20, CHR 0x09, CHR 0xC2, CHR 0xA0], Arguments = [''tls'' \<mapsto> ''insecure'']\<rparr>
      ''192.0.2.25'' \<lparr>Timeout = 5\<rparr>
     = (Panic (IndexOutOfRange 0 0), []) \<and>
   IMAPS_RunTest (ex_imap_env None None)
      \<lparr>Input = [], Arguments = [''port'' \<mapsto> ''143'']\<rparr> ''192.0.2.25'' \<lparr>Timeout = 5\<rparr>
     = (Panic (IndexOutOfRange 0 0), []) \<and>
   IMAPS_RunTest (ex_imap_env None None)
      \<lparr>Input = [], Arguments = [''port'' \<mapsto> ''imaps'']\<rparr> ''192.0.2.25'' \<lparr>Timeout = 5\<rparr>
     = (Return (Some (NumError ''Atoi'' ''imaps'' ErrSyntax)), [])"
proof -
  have 1: "IMAPS_RunTest (ex_imap_env None None)
      \<lparr>Input = [CHR 0x20, CHR 0x09, CHR 0xC2, CHR 0xA0], Arguments = [''tls'' \<mapsto> ''insecure'']\<rparr>
      ''192.0.2.25'' \<lparr>Timeout = 5\<rparr>
     = (Panic (IndexOutOfRange 0 0), [])"
    using imaps_blank_input_panics [of
        "\<lparr>Input = [CHR 0x20, CHR 0x09, CHR 0xC2, CHR 0xA0], Arguments = [''tls'' \<mapsto> ''insecure'']\<rparr>"
        "ex_imap_env None None" "''192.0.2.25''" "\<lparr>Timeout = 5\<rparr>",
        THEN conjunct1, THEN spec, of "[[CHR 0x20], [CHR 0x09], [CHR 0xC2, CHR 0xA0]]"]
    by (simp add: arg_def utf8_spaces_def)
  have 2: "IMAPS_RunTest (ex_imap_env None None)
      \<lparr>Input = [], Arguments = [''port'' \<mapsto> ''143'']\<rparr> ''192.0.2.25'' \<lparr>Timeout = 5\<rparr>
     = (Panic (IndexOutOfRange 0 0), [])"
    using imaps_blank_input_panics [of
        "\<lparr>Input = [], Arguments = [''port'' \<mapsto> ''143'']\<rparr>"
        "ex_imap_env None None" "''192.0.2.25''" "\<lparr>Timeout = 5\<rparr>",
        THEN conjunct1, THEN spec, of "[]"]
    by (simp add: arg_def Atoi_def)
  have 3: "IMAPS_RunTest (ex_imap_env None None)
      \<lparr>Input = [], Arguments = [''port'' \<mapsto> ''imaps'']\<rparr> ''192.0.2.25'' \<lparr>Timeout = 5\<rparr>
     = (Return (Some (NumError ''Atoi'' ''imaps'' ErrSyntax)), [])"
    using imaps_blank_input_panics [of
        "\<lparr>Input = [], Arguments = [''port'' \<mapsto> ''imaps'']\<rparr>"
        "ex_imap_env None None" "''192.0.2.25''" "\<lparr>Timeout = 5\<rparr>"]
    by (simp add: arg_def Atoi_def)
  from 1 2 3 show ?thesis by simp
qed

theorem imaps_blank_input_counterexample:
  "Input \<lparr>Input = '' '', Arguments = [''port'' \<mapsto> ''99999999999999999999'']\<rparr> = concat [[CHR 0x20]] \<and>
   [CHR 0x20] \<in> set utf8_spaces \<and>
   IMAPS_RunTest (ex_imap_env None None)
      \<lparr>Input = '' '', Arguments = [''port'' \<mapsto> ''99999999999999999999'']\<rparr>
      ''192.0.2.25'' \<lparr>Timeout = 5\<rparr>
     = (Return (Some (NumError ''Atoi'' ''99999999999999999999'' ErrRange)), [])"
  by (simp add: IMAPS_RunTest_def arg_def Atoi_def utf8_spaces_def)

subsection \<open>Facts about the enqueue command\<close>

lemma files_loop0_every_file:
  "files_loop0 E rc files s =
     s\<lparr>redis := snd (parse_every_file E rc files (redis s)),
       parsed := parsed s @ files,
       printed := printed s @
         concat (map (\<lambda>err. case err of None \<Rightarrow> []
                            | Some e \<Rightarrow> [(''Error parsing file: %s\<newline>'', e)])
                     (fst (parse_every_file E rc files (redis s))))\<rparr>"
proof (induction files arbitrary: s)
  case Nil
  show ?case by simp
next
  case (Cons f rest)
  obtain err q where pf: "parser_ParseFile E f (enqueueTest E rc) (redis s) = (err, q)"
    by (cases "parser_ParseFile E f (enqueueTest E rc) (redis s)")
  obtain errs q' where pe: "parse_every_file E rc rest q = (errs, q')"
    by (cases "parse_every_file E rc rest q")
  show ?case
    by (cases err) (simp_all add: pf pe Cons.IH)
qed

lemma files_loop1_clean_prefix:
  assumes "parse_every_file E rc pre (redis s) = (errs, q1)"
    and "\<forall>err \<in> set errs. err = None" and "''-'' \<notin> set pre"
  shows "files_loop1 E rc (pre @ rest) s
           = files_loop1 E rc rest (s\<lparr>redis := q1, parsed := parsed s @ pre\<rparr>)"
  using assms
proof (induction pre arbitrary: s errs)
  case Nil
  then have "q1 = redis s" by simp
  then show ?case by simp
next
  case (Cons f pre)
  obtain err q where pf: "parser_ParseFile E f (enqueueTest E rc) (redis s) = (err, q)"
    by (cases "parser_ParseFile E f (enqueueTest E rc) (redis s)")
  obtain errs' q' where pe: "parse_every_file E rc pre q = (errs', q')"
    by (cases "parse_every_file E rc pre q")
  from Cons.prems(1) pf pe have errs: "errs = err # errs'" and q1: "q1 = q'" by simp_all
  from Cons.prems(2) errs have err: "err = None" and clean: "\<forall>err \<in> set errs'. err = None"
    by simp_all
  from Cons.prems(3) have nf: "f \<noteq> ''-''" and np: "''-'' \<notin> set pre" by auto
  let ?s1 = "s\<lparr>redis := q, parsed := parsed s @ [f]\<rparr>"
  have pe': "parse_every_file E rc pre (redis ?s1) = (errs', q1)" using pe q1 by simp
  have "files_loop1 E rc ((f # pre) @ rest) s = files_loop1 E rc (pre @ rest) ?s1"
    using pf err nf by simp
  also have "\<dots> = files_loop1 E rc rest (?s1\<lparr>redis := q1, parsed := parsed ?s1 @ pre\<rparr>)"
    by (rule Cons.IH [OF pe' clean np])
  finally show ?case by simp
qed

lemma files_loop1_status: "fst (files_loop1 E rc files s) = Some st \<Longrightarrow> st = ExitFailure"
  by (induction files arbitrary: s) (auto simp: Let_def split: prod.splits option.splits if_splits)

lemma files_loop1_returned:
  "fst (files_loop1 E rc pre s) = Some st \<Longrightarrow>
   files_loop1 E rc (pre @ post) s = files_loop1 E rc pre s"
  by (induction pre arbitrary: s) (auto simp: Let_def split: prod.splits option.splits if_splits)

lemma files_loop1_stdin:
  "files_loop1 E rc (pre @ ''-'' # post) s = files_loop1 E rc (pre @ [''-'']) s"
  by (induction pre arbitrary: s) (auto simp: Let_def split: prod.splits option.splits)

lemma Execute1_rc:
  assumes "rc = (if RedisSocket p \<noteq> []
                then \<lparr>Network = ''unix'', Addr = RedisSocket p, Password = RedisPassword p,
                      DB = RedisDB p, DialTimeout = RedisDialTimeout p\<rparr>
                else \<lparr>Network = [], Addr = RedisHost p, Password = RedisPassword p,
                      DB = RedisDB p, DialTimeout = RedisDialTimeout p\<rparr>)"
    and "redis_Ping E rc (redis s) = (err, q)"
  shows "Execute1 E p args s =
     (case err of
        Some e \<Rightarrow>
          (ExitFailure, s\<lparr>redis := q, printed := printed s @ [(''Redis connection failed: %s\<newline>'', e)]\<rparr>)
      | None \<Rightarrow>
          (case files_loop1 E rc args (s\<lparr>redis := q\<rparr>) of
             (Some status, s2) \<Rightarrow> (status, s2)
           | (None, s2) \<Rightarrow> (ExitSuccess, s2)))"
  unfolding Execute1_def Let_def assms(1) [symmetric] assms(2)
  by (cases err) simp_all

lemma Execute1_returned:
  assumes "fst (Execute1 E p pre s) = ExitFailure"
  shows "Execute1 E p (pre @ post) s = Execute1 E p pre s"
proof -
  define rc where "rc = (if RedisSocket p \<noteq> []
                then \<lparr>Network = ''unix'', Addr = RedisSocket p, Password = RedisPassword p,
                      DB = RedisDB p, DialTimeout = RedisDialTimeout p\<rparr>
                else \<lparr>Network = [], Addr = RedisHost p, Password = RedisPassword p,
                      DB = RedisDB p, DialTimeout = RedisDialTimeout p\<rparr>)"
  obtain err q where ping: "redis_Ping E rc (redis s) = (err, q)" by (cases "redis_Ping E rc (redis s)")
  note ex = Execute1_rc [OF rc_def ping]
  show ?thesis
  proof (cases err)
    case (Some e)
    then show ?thesis by (simp add: ex)
  next
    case None
    obtain st s' where loop: "files_loop1 E rc pre (s\<lparr>redis := q\<rparr>) = (st, s')"
      by (cases "files_loop1 E rc pre (s\<lparr>redis := q\<rparr>)")
    with assms None obtain x where "st = Some x"
      by (cases st) (simp_all add: ex)
    with loop have "files_loop1 E rc (pre @ post) (s\<lparr>redis := q\<rparr>) = files_loop1 E rc pre (s\<lparr>redis := q\<rparr>)"
      by (intro files_loop1_returned [of _ _ _ _ x]) simp
    with None show ?thesis by (simp add: ex)
  qed
qed

lemma Execute1_stdin:
  "Execute1 E p (pre @ ''-'' # post) s = Execute1 E p (pre @ [''-'']) s"
proof -
  define rc where "rc = (if RedisSocket p \<noteq> []
                then \<lparr>Network = ''unix'', Addr = RedisSocket p, Password = RedisPassword p,
                      DB = RedisDB p, DialTimeout = RedisDialTimeout p\<rparr>
                else \<lparr>Network = [], Addr = RedisHost p, Password = RedisPassword p,
                      DB = RedisDB p, DialTimeout = RedisDialTimeout p\<rparr>)"
  obtain err q where ping: "redis_Ping E rc (redis s) = (err, q)" by (cases "redis_Ping E rc (redis s)")
  show ?thesis
    by (simp only: Execute1_rc [OF rc_def ping] files_loop1_stdin [of E rc pre post])
qed

lemma ex_enq_simps [simp]:
  "redis_Ping (ex_enq_env ping_err) c q = (ping_err, q)"
  "parser_ParseFile (ex_enq_env ping_err) ''bad.conf'' cb q
     = (Some (ExternalError ''open bad.conf: no such file or directory''), q)"
  "file \<noteq> ''bad.conf'' \<Longrightarrow> parser_ParseFile (ex_enq_env ping_err) file cb q
     = cb \<lparr>Input = file @ '' must run ping'', Arguments = Map.empty\<rparr> q"
  "enqueueTest (ex_enq_env ping_err) c tst q = (None, q @ [Input tst])"
  by (simp_all add: ex_enq_env_def enqueueTest_def)

lemma Execute1_clean_prefix:
  assumes rc: "rc = (if RedisSocket p \<noteq> []
                then \<lparr>Network = ''unix'', Addr = RedisSocket p, Password = RedisPassword p,
                      DB = RedisDB p, DialTimeout = RedisDialTimeout p\<rparr>
                else \<lparr>Network = [], Addr = RedisHost p, Password = RedisPassword p,
                      DB = RedisDB p, DialTimeout = RedisDialTimeout p\<rparr>)"
    and ping: "redis_Ping E rc (redis s) = (None, q0)"
    and pre: "parse_every_file E rc pre q0 = (errs, q1)"
    and clean: "\<forall>err \<in> set errs. err = None" and nostdin: "''-'' \<notin> set pre"
  shows "Execute1 E p (pre @ rest) s =
     (case files_loop1 E rc rest (s\<lparr>redis := q1, parsed := parsed s @ pre\<rparr>) of
        (Some status, s2) \<Rightarrow> (status, s2)
      | (None, s2) \<Rightarrow> (ExitSuccess, s2))"
proof -
  have "parse_every_file E rc pre (redis (s\<lparr>redis := q0\<rparr>)) = (errs, q1)"
    using pre by simp
  from files_loop1_clean_prefix [OF this clean nostdin, of rest]
  have "files_loop1 E rc (pre @ rest) (s\<lparr>redis := q0\<rparr>)
          = files_loop1 E rc rest (s\<lparr>redis := q1, parsed := parsed s @ pre\<rparr>)"
    by simp
  then show ?thesis
    by (simp add: Execute1_rc [OF rc ping])
qed

lemma Execute1_first_failure:
  assumes rc: "rc = (if RedisSocket p \<noteq> []
                then \<lparr>Network = ''unix'', Addr = RedisSocket p, Password = RedisPassword p,
                      DB = RedisDB p, DialTimeout = RedisDialTimeout p\<rparr>
                else \<lparr>Network = [], Addr = RedisHost p, Password = RedisPassword p,
                      DB = RedisDB p, DialTimeout = RedisDialTimeout p\<rparr>)"
    and ping: "redis_Ping E rc (redis s) = (None, q0)"
    and pre: "parse_every_file E rc pre q0 = (errs, q1)"
    and clean: "\<forall>err \<in> set errs. err = None" and nostdin: "''-'' \<notin> set pre"
    and fails: "parser_ParseFile E f (enqueueTest E rc) q1 = (Some e, q2)"
  shows "Execute1 E p (pre @ f # post) s =
     (ExitFailure,
      s\<lparr>redis := q2, parsed := parsed s @ pre @ [f],
        printed := printed s @ [(''Error parsing file: %s\<newline>'', e)]\<rparr>)"
  unfolding Execute1_clean_prefix [OF rc ping pre clean nostdin]
  using fails by simp

lemma Execute1_stdin_success:
  assumes rc: "rc = (if RedisSocket p \<noteq> []
                then \<lparr>Network = ''unix'', Addr = RedisSocket p, Password = RedisPassword p,
                      DB = RedisDB p, DialTimeout = RedisDialTimeout p\<rparr>
                else \<lparr>Network = [], Addr = RedisHost p, Password = RedisPassword p,
                      DB = RedisDB p, DialTimeout = RedisDialTimeout p\<rparr>)"
    and ping: "redis_Ping E rc (redis s) = (None, q0)"
    and pre: "parse_every_file E rc pre q0 = (errs, q1)"
    and clean: "\<forall>err \<in> set errs. err = None" and nostdin: "''-'' \<notin> set pre"
    and ok: "parser_ParseFile E ''-'' (enqueueTest E rc) q1 = (None, q2)"
  shows "Execute1 E p (pre @ ''-'' # post) s =
     (ExitSuccess, s\<lparr>redis := q2, parsed := parsed s @ pre @ [''-'']\<rparr>)"
  unfolding Execute1_clean_prefix [OF rc ping pre clean nostdin]
  using ok by simp

lemma Execute0_every_file:
  assumes "redis_Ping E \<lparr>Network = [], Addr = RedisHost p, Password = RedisPassword p, DB = 0,
                        DialTimeout = 0\<rparr> (redis s) = (None, q0)"
  shows "Execute0 E p args s =
     (ExitSuccess,
      s\<lparr>redis := snd (parse_every_file E \<lparr>Network = [], Addr = RedisHost p,
                          Password = RedisPassword p, DB = 0, DialTimeout = 0\<rparr> args q0),
        parsed := parsed s @ args,
        printed := printed s @
          concat (map (\<lambda>err. case err of None \<Rightarrow> []
                             | Some e \<Rightarrow> [(''Error parsing file: %s\<newline>'', e)])
                      (fst (parse_every_file E \<lparr>Network = [], Addr = RedisHost p,
                          Password = RedisPassword p, DB = 0, DialTimeout = 0\<rparr> args q0)))\<rparr>)"
  unfolding Execute0_def Let_def assms
  by (simp add: files_loop0_every_file)

subsection \<open>C3: the scope of a failure in the enqueue command\<close>

text \<open>
  C3, as amended. In both variants a failed ping ends the command with \<open>ExitFailure\<close>
  before any file is handed to the parser. In the older variant a failure of \<open>ParseFile\<close>
  is scoped to its file: after a successful ping the command does what the reference run
  does, every file argument is parsed in turn whatever happened to the files before it,
  the error of each failing file is printed, and the command exits with \<open>ExitSuccess\<close>.
  In the newer variant the first failing file ends the command: when the files before it
  parse without error (and none of them is \<open>-\<close>) and \<open>ParseFile\<close> fails on it, the error
  is printed, the command exits with \<open>ExitFailure\<close>, and the files handed to the parser
  are those up to and including the failing one, none of the later ones. Accordingly, once
  the newer command exits with \<open>ExitFailure\<close> on a prefix of the arguments, the arguments
  after that prefix change nothing.
\<close>
theorem enqueue_failure_scope:
  "(\<forall>e q. redis_Ping E \<lparr>Network = [], Addr = RedisHost p, Password = RedisPassword p, DB = 0,
                        DialTimeout = 0\<rparr> (redis s) = (Some e, q) \<longrightarrow>
      Execute0 E p args s
        = (ExitFailure,
           s\<lparr>redis := q, printed := printed s @ [(''Redis connection failed: %s\<newline>'', e)]\<rparr>)) \<and>
   (\<forall>e q. redis_Ping E (if RedisSocket p \<noteq> []
                then \<lparr>Network = ''unix'', Addr = RedisSocket p, Password = RedisPassword p,
                      DB = RedisDB p, DialTimeout = RedisDialTimeout p\<rparr>
                else \<lparr>Network = [], Addr = RedisHost p, Password = RedisPassword p,
                      DB = RedisDB p, DialTimeout = RedisDialTimeout p\<rparr>) (redis s) = (Some e, q) \<longrightarrow>
      Execute1 E p args s
        = (ExitFailure,
           s\<lparr>redis := q, printed := printed s @ [(''Redis connection failed: %s\<newline>'', e)]\<rparr>)) \<and>
   (\<forall>q0. redis_Ping E \<lparr>Network = [], Addr = RedisHost p, Password = RedisPassword p, DB = 0,
                        DialTimeout = 0\<rparr> (redis s) = (None, q0) \<longrightarrow>
      Execute0 E p args s
        = (ExitSuccess,
           s\<lparr>redis := snd (parse_every_file E \<lparr>Network = [], Addr = RedisHost p,
                               Password = RedisPassword p, DB = 0, DialTimeout = 0\<rparr> args q0),
             parsed := parsed s @ args,
             printed := printed s @
               concat (map (\<lambda>err. case err of None \<Rightarrow> []
                                  | Some e \<Rightarrow> [(''Error parsing file: %s\<newline>'', e)])
                           (fst (parse_every_file E \<lparr>Network = [], Addr = RedisHost p,
                               Password = RedisPassword p, DB = 0, DialTimeout = 0\<rparr> args q0)))\<rparr>)) \<and>
   (\<forall>rc q0 pre f post errs q1 e q2.
      rc = (if RedisSocket p \<noteq> []
            then \<lparr>Network = ''unix'', Addr = RedisSocket p, Password = RedisPassword p,
                  DB = RedisDB p, DialTimeout = RedisDialTimeout p\<rparr>
            else \<lparr>Network = [], Addr = RedisHost p, Password = RedisPassword p,
                  DB = RedisDB p, DialTimeout = RedisDialTimeout p\<rparr>) \<and>
      args = pre @ f # post \<and>
      redis_Ping E rc (redis s) = (None, q0) \<and>
      parse_every_file E rc pre q0 = (errs, q1) \<and> (\<forall>err \<in> set errs. err = None) \<and>
      ''-'' \<notin> set pre \<and>
      parser_ParseFile E f (enqueueTest E rc) q1 = (Some e, q2) \<longrightarrow>
      Execute1 E p args s
        = (ExitFailure,
           s\<lparr>redis := q2, parsed := parsed s @ pre @ [f],
             printed := printed s @ [(''Error parsing file: %s\<newline>'', e)]\<rparr>)) \<and>
   (\<forall>pre post. args = pre @ post \<and> fst (Execute1 E p pre s) = ExitFailure \<longrightarrow>
      Execute1 E p args s = Execute1 E p pre s)"
proof (intro conjI allI impI)
  fix e q
  assume "redis_Ping E \<lparr>Network = [], Addr = RedisHost p, Password = RedisPassword p, DB = 0,
                        DialTimeout = 0\<rparr> (redis s) = (Some e, q)"
  then show "Execute0 E p args s
        = (ExitFailure,
           s\<lparr>redis := q, printed := printed s @ [(''Redis connection failed: %s\<newline>'', e)]\<rparr>)"
    unfolding Execute0_def Let_def by simp
next
  fix e q
  assume h: "redis_Ping E (if RedisSocket p \<noteq> []
                then \<lparr>Network = ''unix'', Addr = RedisSocket p, Password = RedisPassword p,
                      DB = RedisDB p, DialTimeout = RedisDialTimeout p\<rparr>
                else \<lparr>Network = [], Addr = RedisHost p, Password = RedisPassword p,
                      DB = RedisDB p, DialTimeout = RedisDialTimeout p\<rparr>) (redis s) = (Some e, q)"
  show "Execute1 E p args s
        = (ExitFailure,
           s\<lparr>redis := q, printed := printed s @ [(''Redis connection failed: %s\<newline>'', e)]\<rparr>)"
    unfolding Execute1_rc [OF refl h] by simp
next
  fix q0
  assume "redis_Ping E \<lparr>Network = [], Addr = RedisHost p, Password = RedisPassword p, DB = 0,
                        DialTimeout = 0\<rparr> (redis s) = (None, q0)"
  then show "Execute0 E p args s
        = (ExitSuccess,
           s\<lparr>redis := snd (parse_every_file E \<lparr>Network = [], Addr = RedisHost p,
                               Password = RedisPassword p, DB = 0, DialTimeout = 0\<rparr> args q0),
             parsed := parsed s @ args,
             printed := printed s @
               concat (map (\<lambda>err. case err of None \<Rightarrow> []
                                  | Some e \<Rightarrow> [(''Error parsing file: %s\<newline>'', e)])
                           (fst (parse_every_file E \<lparr>Network = [], Addr = RedisHost p,
                               Password = RedisPassword p, DB = 0, DialTimeout = 0\<rparr> args q0)))\<rparr>)"
    by (rule Execute0_every_file)
next
  fix rc q0 pre f post errs q1 e q2
  assume h: "rc = (if RedisSocket p \<noteq> []
            then \<lparr>Network = ''unix'', Addr = RedisSocket p, Password = RedisPassword p,
                  DB = RedisDB p, DialTimeout = RedisDialTimeout p\<rparr>
            else \<lparr>Network = [], Addr = RedisHost p, Password = RedisPassword p,
                  DB = RedisDB p, DialTimeout = RedisDialTimeout p\<rparr>) \<and>
      args = pre @ f # post \<and>
      redis_Ping E rc (redis s) = (None, q0) \<and>
      parse_every_file E rc pre q0 = (errs, q1) \<and> (\<forall>err \<in> set errs. err = None) \<and>
      ''-'' \<notin> set pre \<and>
      parser_ParseFile E f (enqueueTest E rc) q1 = (Some e, q2)"
  then have args: "args = pre @ f # post" by (elim conjE)
  from h show "Execute1 E p args s
        = (ExitFailure,
           s\<lparr>redis := q2, parsed := parsed s @ pre @ [f],
             printed := printed s @ [(''Error parsing file: %s\<newline>'', e)]\<rparr>)"
    unfolding args by (elim conjE) (rule Execute1_first_failure)
next
  fix pre post
  assume "args = pre @ post \<and> fst (Execute1 E p pre s) = ExitFailure"
  then show "Execute1 E p args s = Execute1 E p pre s"
    by (simp add: Execute1_returned)
qed

subsection \<open>C10: standard input ends the loop of the newer variant\<close>

text \<open>
  C10. In the newer variant the arguments after \<open>-\<close> never matter: the command behaves on
  \<open>pre @ - # post\<close> exactly as on \<open>pre @ [-]\<close>. When the ping succeeds, the files before
  \<open>-\<close> parse without error (and none of them is \<open>-\<close>) and \<open>ParseFile\<close> reports no error
  for \<open>-\<close>, the command exits with \<open>ExitSuccess\<close>, the files handed to the parser are
  those of \<open>pre\<close> and \<open>-\<close>, the redis server is as \<open>-\<close> left it, and nothing is
  printed: no file of \<open>post\<close> is read or enqueued, and nothing says so.
\<close>
theorem enqueue_stdin_ends_loop:
  "Execute1 E p (pre @ ''-'' # post) s = Execute1 E p (pre @ [''-'']) s \<and>
   (\<forall>rc q0 errs q1 q2.
      rc = (if RedisSocket p \<noteq> []
            then \<lparr>Network = ''unix'', Addr = RedisSocket p, Password = RedisPassword p,
                  DB = RedisDB p, DialTimeout = RedisDialTimeout p\<rparr>
            else \<lparr>Network = [], Addr = RedisHost p, Password = RedisPassword p,
                  DB = RedisDB p, DialTimeout = RedisDialTimeout p\<rparr>) \<and>
      redis_Ping E rc (redis s) = (None, q0) \<and>
      parse_every_file E rc pre q0 = (errs, q1) \<and> (\<forall>err \<in> set errs. err = None) \<and>
      ''-'' \<notin> set pre \<and>
      parser_ParseFile E ''-'' (enqueueTest E rc) q1 = (None, q2) \<longrightarrow>
      Execute1 E p (pre @ ''-'' # post) s
        = (ExitSuccess, s\<lparr>redis := q2, parsed := parsed s @ pre @ [''-'']\<rparr>))"
proof (intro conjI allI impI)
  show "Execute1 E p (pre @ ''-'' # post) s = Execute1 E p (pre @ [''-'']) s"
    by (rule Execute1_stdin)
next
  fix rc q0 errs q1 q2
  assume "rc = (if RedisSocket p \<noteq> []
            then \<lparr>Network = ''unix'', Addr = RedisSocket p, Password = RedisPassword p,
                  DB = RedisDB p, DialTimeout = RedisDialTimeout p\<rparr>
            else \<lparr>Network = [], Addr = RedisHost p, Password = RedisPassword p,
                  DB = RedisDB p, DialTimeout = RedisDialTimeout p\<rparr>) \<and>
      redis_Ping E rc (redis s) = (None, q0) \<and>
      parse_every_file E rc pre q0 = (errs, q1) \<and> (\<forall>err \<in> set errs. err = None) \<and>
      ''-'' \<notin> set pre \<and>
      parser_ParseFile E ''-'' (enqueueTest E rc) q1 = (None, q2)"
  then show "Execute1 E p (pre @ ''-'' # post) s
        = (ExitSuccess, s\<lparr>redis := q2, parsed := parsed s @ pre @ [''-'']\<rparr>)"
    by (elim conjE) (rule Execute1_stdin_success)
qed

lemma ex_Execute1_bad_good:
  "Execute1 (ex_enq_env None) ex_cmd [''bad.conf'', ''good.conf''] enq_s0
     = (ExitFailure,
        \<lparr>redis = [], parsed = [''bad.conf''],
         printed = [(''Error parsing file: %s\<newline>'',
                     ExternalError ''open bad.conf: no such file or directory'')]\<rparr>)"
  by (simp add: Execute1_def ex_cmd_def enq_s0_def)

theorem enqueue_failure_scope_counterexample:
  "fst (Execute1 (ex_enq_env None) ex_cmd [''bad.conf'', ''good.conf''] enq_s0) = ExitFailure \<and>
   ''good.conf'' \<notin> set (parsed (snd (Execute1 (ex_enq_env None) ex_cmd
                                           [''bad.conf'', ''good.conf''] enq_s0))) \<and>
   redis (snd (Execute1 (ex_enq_env None) ex_cmd [''bad.conf'', ''good.conf''] enq_s0)) = [] \<and>
   redis (snd (Execute1 (ex_enq_env None) ex_cmd [''good.conf''] enq_s0))
     = [''good.conf must run ping'']"
  by (simp add: ex_Execute1_bad_good) (simp add: Execute1_def ex_cmd_def enq_s0_def)

lemma ex_parse_every_file:
  "parse_every_file (ex_enq_env ping_err) rc [] q = ([], q)"
  "parse_every_file (ex_enq_env ping_err) rc [''a.conf''] q = ([None], q @ [''a.conf must run ping''])"
  "parse_every_file (ex_enq_env ping_err) rc [''bad.conf'', ''good.conf''] q
     = ([Some (ExternalError ''open bad.conf: no such file or directory''), None],
        q @ [''good.conf must run ping''])"
  by simp_all

theorem enqueue_failure_scope_witness:
  "Execute0 (ex_enq_env (Some (ExternalError ''connection refused''))) ex_cmd
      [''bad.conf'', ''good.conf''] enq_s0
     = (ExitFailure,
        \<lparr>redis = [], parsed = [],
         printed = [(''Redis connection failed: %s\<newline>'', ExternalError ''connection refused'')]\<rparr>) \<and>
   Execute1 (ex_enq_env (Some (ExternalError ''connection refused''))) ex_cmd
      [''bad.conf'', ''good.conf''] enq_s0
     = (ExitFailure,
        \<lparr>redis = [], parsed = [],
         printed = [(''Redis connection failed: %s\<newline>'', ExternalError ''connection refused'')]\<rparr>) \<and>
   Execute0 (ex_enq_env None) ex_cmd [''bad.conf'', ''good.conf''] enq_s0
     = (ExitSuccess,
        \<lparr>redis = [''good.conf must run ping''], parsed = [''bad.conf'', ''good.conf''],
         printed = [(''Error parsing file: %s\<newline>'',
                     ExternalError ''open bad.conf: no such file or directory'')]\<rparr>) \<and>
   Execute1 (ex_enq_env None) ex_cmd [''a.conf'', ''bad.conf'', ''good.conf''] enq_s0
     = (ExitFailure,
        \<lparr>redis = [''a.conf must run ping''], parsed = [''a.conf'', ''bad.conf''],
         printed = [(''Error parsing file: %s\<newline>'',
                     ExternalError ''open bad.conf: no such file or directory'')]\<rparr>)"
proof -
  note down = enqueue_failure_scope [of "ex_enq_env (Some (ExternalError ''connection refused''))"
      ex_cmd enq_s0 "[''bad.conf'', ''good.conf'']"]
  note up = enqueue_failure_scope [of "ex_enq_env None" ex_cmd enq_s0 "[''bad.conf'', ''good.conf'']"]
  note up3 = enqueue_failure_scope [of "ex_enq_env None" ex_cmd enq_s0
      "[''a.conf'', ''bad.conf'', ''good.conf'']"]
  have 1: "Execute0 (ex_enq_env (Some (ExternalError ''connection refused''))) ex_cmd
      [''bad.conf'', ''good.conf''] enq_s0
     = (ExitFailure,
        \<lparr>redis = [], parsed = [],
         printed = [(''Redis connection failed: %s\<newline>'', ExternalError ''connection refused'')]\<rparr>)"
    using down [THEN conjunct1] by (simp add: enq_s0_def)
  have 2: "Execute1 (ex_enq_env (Some (ExternalError ''connection refused''))) ex_cmd
      [''bad.conf'', ''good.conf''] enq_s0
     = (ExitFailure,
        \<lparr>redis = [], parsed = [],
         printed = [(''Redis connection failed: %s\<newline>'', ExternalError ''connection refused'')]\<rparr>)"
    using down [THEN conjunct2, THEN conjunct1] by (simp add: enq_s0_def)
  have 3: "Execute0 (ex_enq_env None) ex_cmd [''bad.conf'', ''good.conf''] enq_s0
     = (ExitSuccess,
        \<lparr>redis = [''good.conf must run ping''], parsed = [''bad.conf'', ''good.conf''],
         printed = [(''Error parsing file: %s\<newline>'',
                     ExternalError ''open bad.conf: no such file or directory'')]\<rparr>)"
    using up [THEN conjunct2, THEN conjunct2, THEN conjunct1, THEN spec, of "[]"]
    by (simp add: enq_s0_def)
  have 4: "Execute1 (ex_enq_env None) ex_cmd [''a.conf'', ''bad.conf'', ''good.conf''] enq_s0
     = (ExitFailure,
        \<lparr>redis = [''a.conf must run ping''], parsed = [''a.conf'', ''bad.conf''],
         printed = [(''Error parsing file: %s\<newline>'',
                     ExternalError ''open bad.conf: no such file or directory'')]\<rparr>)"
    using up3 [THEN conjunct2, THEN conjunct2, THEN conjunct2, THEN conjunct1, rule_format,
        of _ "[''a.conf'']" "''bad.conf''" "[''good.conf'']" "[]" "[None]" "[''a.conf must run ping'']"
           "ExternalError ''open bad.conf: no such file or directory''" "[''a.conf must run ping'']"]
    by (simp add: enq_s0_def)
  from 1 2 3 4 show ?thesis by simp
qed

theorem enqueue_stdin_ends_loop_witness:
  "Execute1 (ex_enq_env None) ex_cmd [''a.conf'', ''-'', ''b.conf''] enq_s0
     = (ExitSuccess,
        \<lparr>redis = [''a.conf must run ping'', ''- must run ping''], parsed = [''a.conf'', ''-''],
         printed = []\<rparr>) \<and>
   Execute1 (ex_enq_env None) ex_cmd [''a.conf'', ''-'', ''b.conf''] enq_s0
     = Execute1 (ex_enq_env None) ex_cmd [''a.conf'', ''-''] enq_s0"
proof -
  note t = enqueue_stdin_ends_loop [of "ex_enq_env None" ex_cmd "[''a.conf'']" "[''b.conf'']" enq_s0,
      unfolded append_Cons append_Nil]
  have "Execute1 (ex_enq_env None) ex_cmd [''a.conf'', ''-'', ''b.conf''] enq_s0
     = (ExitSuccess,
        \<lparr>redis = [''a.conf must run ping'', ''- must run ping''], parsed = [''a.conf'', ''-''],
         printed = []\<rparr>)"
    using t [THEN conjunct2, rule_format, of _ "[]" "[None]" "[''a.conf must run ping'']"
               "[''a.conf must run ping'', ''- must run ping'']"]
    by (simp add: enq_s0_def)
  with t [THEN conjunct1] show ?thesis by simp
qed

end
